theory Spec2Isabelle
  imports Complex_Main "HOL-Library.Multiset" "HOL-Library.Char_ord"
    "HOL-Library.List_Lexorder" "HOL-Library.Product_Lexorder"
begin

section \<open>JavaScript values used by the scheduling code\<close>

text \<open>
  A JavaScript number: \<open>NaN\<close>, a finite value, or one of the two infinities. Finite
  values are exact rationals: the rounding of doubles (and with it overflow to an
  infinity) is not modelled, and the two zeros are one. The operations are those the
  time code uses: \<open>+\<close>, \<open>*\<close>, \<open>/ 60\<close>, \<open><\<close> and \<open>>=\<close>.
\<close>

datatype jsnum = NaN | Num rat | PosInfinity | NegInfinity

fun js_add :: "jsnum \<Rightarrow> jsnum \<Rightarrow> jsnum" where
  "js_add NaN b = NaN"
| "js_add a NaN = NaN"
| "js_add (Num x) (Num y) = Num (x + y)"
| "js_add PosInfinity NegInfinity = NaN"
| "js_add NegInfinity PosInfinity = NaN"
| "js_add PosInfinity b = PosInfinity"
| "js_add NegInfinity b = NegInfinity"
| "js_add (Num x) b = b"

fun js_mul :: "jsnum \<Rightarrow> jsnum \<Rightarrow> jsnum" where
  "js_mul NaN b = NaN"
| "js_mul a NaN = NaN"
| "js_mul (Num x) (Num y) = Num (x * y)"
| "js_mul (Num x) b =
     (if x = 0 then NaN else if 0 < x then b
      else (case b of PosInfinity \<Rightarrow> NegInfinity | _ \<Rightarrow> PosInfinity))"
| "js_mul a (Num y) =
     (if y = 0 then NaN else if 0 < y then a
      else (case a of PosInfinity \<Rightarrow> NegInfinity | _ \<Rightarrow> PosInfinity))"
| "js_mul a b = (if a = b then PosInfinity else NegInfinity)"

fun js_div60 :: "jsnum \<Rightarrow> jsnum" where
  "js_div60 (Num x) = Num (x / 60)"
| "js_div60 a = a"

fun js_lt :: "jsnum \<Rightarrow> jsnum \<Rightarrow> bool" where
  "js_lt NaN b = False"
| "js_lt a NaN = False"
| "js_lt (Num x) (Num y) = (x < y)"
| "js_lt a PosInfinity = (a \<noteq> PosInfinity)"
| "js_lt NegInfinity b = (b \<noteq> NegInfinity)"
| "js_lt a b = False"

definition js_ge :: "jsnum \<Rightarrow> jsnum \<Rightarrow> bool" where
  "js_ge a b \<longleftrightarrow> a \<noteq> NaN \<and> b \<noteq> NaN \<and> \<not> js_lt a b"

text \<open>
  Strings are sequences of code units below 256.
  \<open>s.split(sep)\<close> for a one-character separator; \<open>"".split(":")\<close> is \<open>[""]\<close>.
\<close>

fun split :: "char \<Rightarrow> string \<Rightarrow> string list" where
  "split sep [] = [[]]"
| "split sep (c # cs) =
     (if c = sep then [] # split sep cs
      else (case split sep cs of [] \<Rightarrow> [[c]] | w # ws \<Rightarrow> (c # w) # ws))"

text \<open>
  \<open>Number(s)\<close>, the conversion of a string to a number: blanks and line ends around
  the text are dropped; the empty text is \<open>0\<close>; \<open>0x\<close>, \<open>0o\<close> and \<open>0b\<close> (in either
  case) start a hexadecimal, octal or binary integer without sign; otherwise the text
  is an optional sign followed by \<open>Infinity\<close> or by a decimal literal: digits with an
  optional fraction, or a fraction alone, and an optional exponent. Anything else is
  \<open>NaN\<close>.
\<close>

text \<open>The value of a digit in base 16 or below; \<open>None\<close> for any other character.\<close>

fun digitOf :: "char \<Rightarrow> nat option" where
  "digitOf c =
     map_of (zip ''0123456789abcdef'' [0, 1, 2, 3, 4, 5, 6, 7, 8, 9, 10, 11, 12, 13, 14, 15]
             @ zip ''ABCDEF'' [10, 11, 12, 13, 14, 15]) c"

fun radixValue :: "nat \<Rightarrow> nat \<Rightarrow> string \<Rightarrow> nat option" where
  "radixValue base acc [] = Some acc"
| "radixValue base acc (c # cs) =
     (case digitOf c of
        None \<Rightarrow> None
      | Some d \<Rightarrow> if d < base then radixValue base (acc * base + d) cs else None)"

text \<open>One digit at least.\<close>

definition digitsValue :: "nat \<Rightarrow> string \<Rightarrow> nat option" where
  "digitsValue base s = (if s = [] then None else radixValue base 0 s)"

definition isStrWhiteSpace :: "char \<Rightarrow> bool" where
  "isStrWhiteSpace c \<longleftrightarrow>
     c \<in> set [CHR 0x09, CHR 0x0A, CHR 0x0B, CHR 0x0C, CHR 0x0D, CHR '' '', CHR 0xA0]"

definition strip :: "string \<Rightarrow> string" where
  "strip s = rev (dropWhile isStrWhiteSpace (rev (dropWhile isStrWhiteSpace s)))"

definition isExponentMark :: "char \<Rightarrow> bool" where
  "isExponentMark c \<longleftrightarrow> c = CHR ''e'' \<or> c = CHR ''E''"

text \<open>The exponent: digits with an optional sign.\<close>

definition signedInteger :: "string \<Rightarrow> int option" where
  "signedInteger s =
     (case s of
        [] \<Rightarrow> None
      | c # cs \<Rightarrow>
          if c = CHR ''+'' then map_option int (digitsValue 10 cs)
          else if c = CHR ''-'' then map_option (\<lambda>n. - int n) (digitsValue 10 cs)
          else map_option int (digitsValue 10 s))"

definition scale :: "rat \<Rightarrow> int \<Rightarrow> rat" where
  "scale m e = (if 0 \<le> e then m * 10 ^ nat e else m / 10 ^ nat (- e))"

text \<open>An unsigned decimal literal other than \<open>Infinity\<close>.\<close>

definition unsignedDecimal :: "string \<Rightarrow> rat option" where
  "unsignedDecimal s =
     (let mantissa = takeWhile (\<lambda>c. \<not> isExponentMark c) s;
          rest = dropWhile (\<lambda>c. \<not> isExponentMark c) s;
          whole = takeWhile (\<lambda>c. c \<noteq> CHR ''.'') mantissa;
          fraction = drop 1 (dropWhile (\<lambda>c. c \<noteq> CHR ''.'') mantissa);
          exponent = (if rest = [] then Some 0 else signedInteger (drop 1 rest))
      in if whole = [] \<and> fraction = [] then None
         else (case (radixValue 10 0 whole, radixValue 10 0 fraction, exponent) of
                 (Some w, Some f, Some e) \<Rightarrow>
                   Some (scale (of_nat w + of_nat f / 10 ^ length fraction) e)
               | _ \<Rightarrow> None))"

definition strDecimal :: "string \<Rightarrow> jsnum" where
  "strDecimal s =
     (case s of
        [] \<Rightarrow> NaN
      | c # cs \<Rightarrow>
          if c = CHR ''+'' then
            (if cs = ''Infinity'' then PosInfinity
             else (case unsignedDecimal cs of None \<Rightarrow> NaN | Some v \<Rightarrow> Num v))
          else if c = CHR ''-'' then
            (if cs = ''Infinity'' then NegInfinity
             else (case unsignedDecimal cs of None \<Rightarrow> NaN | Some v \<Rightarrow> Num (- v)))
          else
            (if s = ''Infinity'' then PosInfinity
             else (case unsignedDecimal s of None \<Rightarrow> NaN | Some v \<Rightarrow> Num v)))"

text \<open>A prefixed integer: \<open>None\<close> without a prefix, \<open>Some None\<close> when the digits are wrong.\<close>

definition nonDecimal :: "string \<Rightarrow> nat option option" where
  "nonDecimal s =
     (case s of
        z # p # ds \<Rightarrow>
          if z = CHR ''0'' \<and> (p = CHR ''x'' \<or> p = CHR ''X'') then Some (digitsValue 16 ds)
          else if z = CHR ''0'' \<and> (p = CHR ''o'' \<or> p = CHR ''O'') then Some (digitsValue 8 ds)
          else if z = CHR ''0'' \<and> (p = CHR ''b'' \<or> p = CHR ''B'') then Some (digitsValue 2 ds)
          else None
      | _ \<Rightarrow> None)"

definition Number :: "string \<Rightarrow> jsnum" where
  "Number s =
     (let t = strip s
      in if t = [] then Num 0
         else (case nonDecimal t of
                 Some v \<Rightarrow> (case v of None \<Rightarrow> NaN | Some n \<Rightarrow> Num (of_nat n))
               | None \<Rightarrow> strDecimal t))"

text \<open>
  \<open>const [a, b] = xs\<close>: the first two elements; a missing one is \<open>undefined\<close>, which
  the arithmetic that follows turns into \<open>NaN\<close>.
\<close>

fun firstTwo :: "jsnum list \<Rightarrow> jsnum \<times> jsnum" where
  "firstTwo [] = (NaN, NaN)"
| "firstTwo [a] = (a, NaN)"
| "firstTwo (a # b # _) = (a, b)"

definition timeToMinutes :: "string \<Rightarrow> jsnum" where
  "timeToMinutes timeString =
     (case firstTwo (map Number (split CHR '':'' timeString)) of
        (hours, minutes) \<Rightarrow> js_add (js_mul hours (Num 60)) minutes)"

text \<open>
  JSON values of a request body. \<open>JObj\<close> stands for any object; its contents play no
  part in the control flow that is modelled.
\<close>

datatype json = JNull | JBool bool | JNum rat | JStr string | JArr "json list" | JObj

text \<open>
  Truthiness of an optional field (\<open>None\<close> is \<open>undefined\<close>): \<open>undefined\<close>, \<open>null\<close>,
  \<open>false\<close>, \<open>0\<close> and the empty string are falsy, everything else is truthy.
\<close>

fun truthy :: "json option \<Rightarrow> bool" where
  "truthy None = False"
| "truthy (Some JNull) = False"
| "truthy (Some (JBool b)) = b"
| "truthy (Some (JNum n)) = (n \<noteq> 0)"
| "truthy (Some (JStr s)) = (s \<noteq> [])"
| "truthy (Some (JArr xs)) = True"
| "truthy (Some JObj) = True"

section \<open>Slot availability\<close>

record interval =
  iv_from :: string
  iv_to :: string

text \<open>
  An interval group of the upstream response. A field is \<open>None\<close> when it is absent or
  not an array, which is what \<open>Array.isArray\<close> tests.
\<close>

record interval_group =
  reserved_time :: "interval list option"
  not_worked_time :: "interval list option"

text \<open>The inner \<open>for\<close> loop: \<open>False\<close> is the early \<open>return false\<close>.\<close>

fun scanIntervals :: "jsnum \<Rightarrow> jsnum \<Rightarrow> interval list \<Rightarrow> bool" where
  "scanIntervals slotMinutes slotEndMinutes [] = True"
| "scanIntervals slotMinutes slotEndMinutes (i # rest) =
     (let reservedStart = timeToMinutes (iv_from i);
          reservedEnd = timeToMinutes (iv_to i)
      in if js_lt slotMinutes reservedEnd \<and> js_lt reservedStart slotEndMinutes then False
         else scanIntervals slotMinutes slotEndMinutes rest)"

definition scanField :: "jsnum \<Rightarrow> jsnum \<Rightarrow> interval list option \<Rightarrow> bool" where
  "scanField slotMinutes slotEndMinutes field =
     (case field of None \<Rightarrow> True | Some xs \<Rightarrow> scanIntervals slotMinutes slotEndMinutes xs)"

fun scanGroups :: "jsnum \<Rightarrow> jsnum \<Rightarrow> interval_group list \<Rightarrow> bool" where
  "scanGroups slotMinutes slotEndMinutes [] = True"
| "scanGroups slotMinutes slotEndMinutes (g # gs) =
     (if \<not> scanField slotMinutes slotEndMinutes (reserved_time g) then False
      else if \<not> scanField slotMinutes slotEndMinutes (not_worked_time g) then False
      else scanGroups slotMinutes slotEndMinutes gs)"

definition isTimeSlotFree :: "string \<Rightarrow> interval_group list \<Rightarrow> rat \<Rightarrow> bool" where
  "isTimeSlotFree timeSlot reservedIntervals serviceDuration =
     (let slotMinutes = timeToMinutes timeSlot;
          slotEndMinutes = js_add slotMinutes (Num serviceDuration)
      in scanGroups slotMinutes slotEndMinutes reservedIntervals)"

text \<open>The reserved and not-worked entries a group carries.\<close>

definition entries :: "interval_group \<Rightarrow> interval list" where
  "entries g = (case reserved_time g of None \<Rightarrow> [] | Some xs \<Rightarrow> xs)
             @ (case not_worked_time g of None \<Rightarrow> [] | Some xs \<Rightarrow> xs)"

record working_hours =
  wh_start :: rat
  wh_end :: rat
  wh_days :: "string list"

record slot =
  start_time :: string
  available :: bool
  unit_id :: "json option"
  coach_name :: "string option"

text \<open>The test \<open>slotTime >= workingHours.start && slotTime < workingHours.end\<close>.\<close>

definition inWorkingHours :: "working_hours \<Rightarrow> string \<Rightarrow> bool" where
  "inWorkingHours workingHours time =
     (case firstTwo (map Number (split CHR '':'' time)) of
        (timeHour, timeMinute) \<Rightarrow>
          (let slotTime = js_add timeHour (js_div60 timeMinute)
           in js_ge slotTime (Num (wh_start workingHours))
              \<and> js_lt slotTime (Num (wh_end workingHours))))"

text \<open>
  \<open>filterAvailableSlots\<close>. The time matrix is the list of (date, start times) in the
  order \<open>Object.keys\<close> enumerates it; the reserved intervals are a map from date to
  interval groups. The weekday name of a date string comes from the runtime's
  \<open>Date\<close> and locale functions and is the parameter \<open>weekday\<close>.
\<close>

definition slotsOfDay ::
  "working_hours \<Rightarrow> rat \<Rightarrow> interval_group list \<Rightarrow> string \<Rightarrow> string list \<Rightarrow> slot list" where
  "slotsOfDay workingHours serviceDuration dayReserved date dayTimes =
     map (\<lambda>time. \<lparr>start_time = date @ '' '' @ time, available = True,
                   unit_id = None, coach_name = None\<rparr>)
         (filter (\<lambda>time. inWorkingHours workingHours time
                          \<and> isTimeSlotFree time dayReserved serviceDuration) dayTimes)"

definition filterAvailableSlots ::
  "(string \<Rightarrow> string) \<Rightarrow> (string \<times> string list) list \<Rightarrow> (string \<rightharpoonup> interval_group list)
     \<Rightarrow> working_hours \<Rightarrow> rat \<Rightarrow> slot list" where
  "filterAvailableSlots weekday timeMatrix reservedIntervals workingHours serviceDuration =
     concat (map (\<lambda>(date, dayTimes).
        (let dayOfWeek = weekday date
         in if dayOfWeek \<notin> set (wh_days workingHours) then []
            else (let dayReserved = (case reservedIntervals date of None \<Rightarrow> [] | Some gs \<Rightarrow> gs)
                  in slotsOfDay workingHours serviceDuration dayReserved date dayTimes)))
        timeMatrix)"

section \<open>The upstream scheduling API as seen by one request\<close>

text \<open>
  An error value with its \<open>message\<close> property, a string (\<open>None\<close> when it has
  none): the \<open>error\<close> member of a JSON-RPC response, or a thrown \<open>Error\<close>.
\<close>

datatype js_error = JsError (err_message: "string option")

text \<open>
  A parsed JSON-RPC response: \<open>resp_error\<close> is \<open>None\<close> when the \<open>error\<close> member is
  absent or falsy, \<open>resp_result\<close> is \<open>None\<close> when \<open>result\<close> is absent or \<open>null\<close>.
  \<open>makeAPIRequest\<close> resolves with the parsed response, or rejects with an \<open>Error\<close>
  (request failure, unparseable body) whose message \<open>Rejected\<close> carries.
\<close>

datatype 'a response = Response (resp_error: "js_error option") (resp_result: "'a option")

datatype 'a api_result = Rejected string | Resolved "'a response"

record booking =
  bookingHash :: "json option"
  booking_id :: "json option"
  bk_id :: "json option"

text \<open>
  The upstream during one HTTP request, one function per remote method. The \<open>nat\<close>
  argument is the number of calls of that method (and, where it has one, that unit)
  made earlier in the request, so a method may answer each call differently.
\<close>

record upstream =
  getToken :: "nat \<Rightarrow> string api_result"
  getUserToken :: "nat \<Rightarrow> string api_result"
  getStartTimeMatrix :: "json \<Rightarrow> nat \<Rightarrow> (string \<times> string list) list api_result"
  getReservedTimeIntervals :: "json \<Rightarrow> nat \<Rightarrow> (string \<rightharpoonup> interval_group list) api_result"
  addClient :: "nat \<Rightarrow> rat api_result"
  book :: "nat \<Rightarrow> booking api_result"

datatype request = GetToken | GetUserToken | GetStartTimeMatrix json
  | GetReservedTimeIntervals json | AddClient | Book

text \<open>What a request does to the outside, in order: upstream calls and timer delays (ms).\<close>

datatype event = Call request | Delay nat

definition calls :: "request \<Rightarrow> event list \<Rightarrow> nat" where
  "calls r tr = length (filter (\<lambda>e. e = Call r) tr)"

definition callGetToken :: "upstream \<Rightarrow> event list \<Rightarrow> string api_result \<times> event list" where
  "callGetToken up tr = (getToken up (calls GetToken tr), tr @ [Call GetToken])"

definition callGetUserToken :: "upstream \<Rightarrow> event list \<Rightarrow> string api_result \<times> event list" where
  "callGetUserToken up tr = (getUserToken up (calls GetUserToken tr), tr @ [Call GetUserToken])"

definition callGetStartTimeMatrix ::
  "upstream \<Rightarrow> json \<Rightarrow> event list \<Rightarrow> (string \<times> string list) list api_result \<times> event list" where
  "callGetStartTimeMatrix up unitId tr =
     (getStartTimeMatrix up unitId (calls (GetStartTimeMatrix unitId) tr),
      tr @ [Call (GetStartTimeMatrix unitId)])"

definition callGetReservedTimeIntervals ::
  "upstream \<Rightarrow> json \<Rightarrow> event list
     \<Rightarrow> (string \<rightharpoonup> interval_group list) api_result \<times> event list" where
  "callGetReservedTimeIntervals up unitId tr =
     (getReservedTimeIntervals up unitId (calls (GetReservedTimeIntervals unitId) tr),
      tr @ [Call (GetReservedTimeIntervals unitId)])"

definition callAddClient :: "upstream \<Rightarrow> event list \<Rightarrow> rat api_result \<times> event list" where
  "callAddClient up tr = (addClient up (calls AddClient tr), tr @ [Call AddClient])"

definition callBook :: "upstream \<Rightarrow> event list \<Rightarrow> booking api_result \<times> event list" where
  "callBook up tr = (book up (calls Book tr), tr @ [Call Book])"

record config =
  cfg_workingHours :: working_hours
  cfg_serviceDuration :: "rat option"

text \<open>The default parameter \<open>serviceDuration = 55\<close>, taken when the configuration has none.\<close>

definition durationOf :: "config \<Rightarrow> rat" where
  "durationOf cfg = (case cfg_serviceDuration cfg of None \<Rightarrow> 55 | Some d \<Rightarrow> d)"

datatype body =
    ErrorBody string
  | SlotsBody "slot list"
  | BookingBody "json option" string string "json option"

record http_response =
  http_status :: nat
  http_body :: body

section \<open>The availability endpoint\<close>

definition coachNameOf :: "json option \<Rightarrow> string" where
  "coachNameOf unitId = (if unitId = Some (JNum 4) then ''Mason'' else ''Josh'')"

definition allowedUnits :: "json list" where
  "allowedUnits = [JNum 4, JNum 10]"

text \<open>
  The body of the loop over the units: the slots the unit adds to \<open>allAvailableSlots\<close>.
  An error response of the time-matrix call and a rejection of either call
  (\<open>continue\<close>, \<open>catch\<close>) add none. The response of the reserved-intervals call is used
  as \<open>reservedResult.result || {}\<close> whatever its \<open>error\<close> member holds.
\<close>

definition processUnit ::
  "(string \<Rightarrow> string) \<Rightarrow> config \<Rightarrow> upstream \<Rightarrow> json \<Rightarrow> event list \<Rightarrow> slot list \<times> event list" where
  "processUnit weekday cfg up unitId tr =
     (let coachName = coachNameOf (Some unitId)
      in case callGetStartTimeMatrix up unitId tr of
           (Rejected msg, tr1) \<Rightarrow> ([], tr1)
         | (Resolved timeMatrixResult, tr1) \<Rightarrow>
             (case resp_error timeMatrixResult of
                Some e \<Rightarrow> ([], tr1)
              | None \<Rightarrow>
                  (let timeMatrix = (case resp_result timeMatrixResult of None \<Rightarrow> [] | Some m \<Rightarrow> m)
                   in case callGetReservedTimeIntervals up unitId tr1 of
                        (Rejected msg, tr2) \<Rightarrow> ([], tr2)
                      | (Resolved reservedResult, tr2) \<Rightarrow>
                          (let reservedIntervals =
                                 (case resp_result reservedResult of None \<Rightarrow> Map.empty | Some m \<Rightarrow> m);
                               availableSlots =
                                 filterAvailableSlots weekday timeMatrix reservedIntervals
                                   (cfg_workingHours cfg) (durationOf cfg)
                           in (map (\<lambda>slot. slot\<lparr>unit_id := Some unitId,
                                                 coach_name := Some coachName\<rparr>) availableSlots,
                               tr2)))))"

fun collectUnits ::
  "(string \<Rightarrow> string) \<Rightarrow> config \<Rightarrow> upstream \<Rightarrow> json list \<Rightarrow> slot list \<Rightarrow> event list
     \<Rightarrow> slot list \<times> event list" where
  "collectUnits weekday cfg up [] allAvailableSlots tr = (allAvailableSlots, tr)"
| "collectUnits weekday cfg up (unitId # rest) allAvailableSlots tr =
     (case processUnit weekday cfg up unitId tr of
        (availableSlots, tr') \<Rightarrow>
          collectUnits weekday cfg up rest (allAvailableSlots @ availableSlots) tr')"

text \<open>
  \<open>const [dateA, timeA] = a.start_time.split(' ')\<close>. Every slot the filter builds is
  \<open>date\<close>, a blank, \<open>time\<close>, so the split has at least two parts; for a string without
  a blank, where \<open>timeA\<close> would be \<open>undefined\<close>, the time part is taken as empty.
\<close>

definition dateOf :: "slot \<Rightarrow> string" where
  "dateOf a = (case split CHR '' '' (start_time a) of [] \<Rightarrow> [] | d # _ \<Rightarrow> d)"

definition timeOf :: "slot \<Rightarrow> string" where
  "timeOf a = (case split CHR '' '' (start_time a) of d # t # _ \<Rightarrow> t | _ \<Rightarrow> [])"

text \<open>
  The sort comparator. \<open>localeCompare\<close> belongs to the runtime and is the
  parameter \<open>lc\<close>.
\<close>

definition compareSlots :: "(string \<Rightarrow> string \<Rightarrow> int) \<Rightarrow> slot \<Rightarrow> slot \<Rightarrow> int" where
  "compareSlots lc a b =
     (if dateOf a \<noteq> dateOf b then lc (dateOf a) (dateOf b) else lc (timeOf a) (timeOf b))"

text \<open>
  \<open>Array.prototype.sort\<close> is stable: with a consistent comparator its result is the
  one arrangement that is ordered and keeps equal elements in their input order. It is
  computed here by insertion from the right.
\<close>

fun insertSlot :: "(slot \<Rightarrow> slot \<Rightarrow> int) \<Rightarrow> slot \<Rightarrow> slot list \<Rightarrow> slot list" where
  "insertSlot cmp x [] = [x]"
| "insertSlot cmp x (y # ys) = (if cmp x y \<le> 0 then x # y # ys else y # insertSlot cmp x ys)"

definition sortSlots :: "(string \<Rightarrow> string \<Rightarrow> int) \<Rightarrow> slot list \<Rightarrow> slot list" where
  "sortSlots lc xs = foldr (insertSlot (compareSlots lc)) xs []"

text \<open>The reserved-times summary after the sort: one more call per unit, for logging only.\<close>

fun summaryCalls :: "upstream \<Rightarrow> json list \<Rightarrow> event list \<Rightarrow> event list" where
  "summaryCalls up [] tr = tr"
| "summaryCalls up (unitId # rest) tr =
     summaryCalls up rest (snd (callGetReservedTimeIntervals up unitId tr))"

text \<open>
  The handler of \<open>POST /api/available-slots\<close>. \<open>load\<close> is the outcome of reading and
  parsing the configuration file (\<open>Inl\<close> the message of the exception). The fields of
  the request body only travel to the upstream calls.
\<close>

definition availableSlotsHandler ::
  "(string \<Rightarrow> string) \<Rightarrow> (string \<Rightarrow> string \<Rightarrow> int) \<Rightarrow> string + config \<Rightarrow> upstream
     \<Rightarrow> http_response \<times> event list" where
  "availableSlotsHandler weekday lc load up =
     (case load of
        Inl msg \<Rightarrow>
          (\<lparr>http_status = 500,
            http_body = ErrorBody (''Failed to fetch available slots: '' @ msg)\<rparr>, [])
      | Inr cfg \<Rightarrow>
          (case callGetToken up [] of
             (Rejected msg, tr1) \<Rightarrow>
               (\<lparr>http_status = 500,
                 http_body = ErrorBody (''Failed to fetch available slots: '' @ msg)\<rparr>, tr1)
           | (Resolved publicTokenResult, tr1) \<Rightarrow>
               if resp_error publicTokenResult \<noteq> None
               then (\<lparr>http_status = 500,
                      http_body = ErrorBody ''Failed to get public access token''\<rparr>, tr1)
               else
                 (case callGetUserToken up tr1 of
                    (Rejected msg, tr2) \<Rightarrow>
                      (\<lparr>http_status = 500,
                        http_body = ErrorBody (''Failed to fetch available slots: '' @ msg)\<rparr>, tr2)
                  | (Resolved adminTokenResult, tr2) \<Rightarrow>
                      if resp_error adminTokenResult \<noteq> None
                      then (\<lparr>http_status = 500,
                             http_body = ErrorBody ''Failed to get admin access token''\<rparr>, tr2)
                      else
                        (case collectUnits weekday cfg up allowedUnits [] tr2 of
                           (allAvailableSlots, tr3) \<Rightarrow>
                             (\<lparr>http_status = 200,
                               http_body = SlotsBody (sortSlots lc allAvailableSlots)\<rparr>,
                              summaryCalls up allowedUnits tr3)))))"

section \<open>The booking endpoint\<close>

record booking_request =
  req_start_time :: "json option"
  req_service_id :: "json option"
  req_unit_id :: "json option"
  req_client_name :: "json option"
  req_client_email :: "json option"
  req_client_phone :: "json option"
  req_client_notes :: "json option"

text \<open>\<open>Array.isArray(unit_id) ? unit_id[0] : unit_id\<close>\<close>

definition finalUnitIdOf :: "json option \<Rightarrow> json option" where
  "finalUnitIdOf unitId =
     (case unitId of
        Some (JArr xs) \<Rightarrow> (case xs of [] \<Rightarrow> None | x # _ \<Rightarrow> Some x)
      | _ \<Rightarrow> unitId)"

definition missingRequired :: "booking_request \<Rightarrow> bool" where
  "missingRequired req \<longleftrightarrow>
     \<not> truthy (req_start_time req) \<or> \<not> truthy (req_service_id req)
     \<or> \<not> truthy (finalUnitIdOf (req_unit_id req)) \<or> \<not> truthy (req_client_name req)
     \<or> \<not> truthy (req_client_email req) \<or> \<not> truthy (req_client_phone req)"

definition maxRetries :: nat where
  "maxRetries = 3"

fun startsWith :: "string \<Rightarrow> string \<Rightarrow> bool" where
  "startsWith s [] = True"
| "startsWith [] (p # ps) = False"
| "startsWith (c # cs) (p # ps) = (c = p \<and> startsWith cs ps)"

text \<open>\<open>s.includes(part)\<close>: \<open>part\<close> occurs in \<open>s\<close>, compared character by character.\<close>

fun js_includes :: "string \<Rightarrow> string \<Rightarrow> bool" where
  "js_includes [] part = (part = [])"
| "js_includes (c # cs) part = (startsWith (c # cs) part \<or> js_includes cs part)"

text \<open>\<open>error.message && error.message.includes('not available')\<close>\<close>

definition notAvailable :: "js_error \<Rightarrow> bool" where
  "notAvailable e =
     (case err_message e of None \<Rightarrow> False
      | Some m \<Rightarrow> m \<noteq> [] \<and> js_includes m ''not available'')"

text \<open>A message spliced into a string: \<open>undefined\<close> prints as that word.\<close>

definition js_string :: "string option \<Rightarrow> string" where
  "js_string m = (case m of None \<Rightarrow> ''undefined'' | Some s \<Rightarrow> s)"

text \<open>\<open>reservedResult.result?.[bookingDate] || []\<close>\<close>

definition dayIntervals ::
  "(string \<rightharpoonup> interval_group list) response \<Rightarrow> string \<Rightarrow> interval_group list" where
  "dayIntervals reservedResult bookingDate =
     (case resp_result reservedResult of None \<Rightarrow> []
      | Some m \<Rightarrow> (case m bookingDate of None \<Rightarrow> [] | Some gs \<Rightarrow> gs))"

text \<open>
  \<open>client_notes && client_notes.trim()\<close> throws a \<open>TypeError\<close> when the notes are
  truthy and not a string.
\<close>

definition notesThrow :: "json option \<Rightarrow> bool" where
  "notesThrow notes = (truthy notes \<and> (case notes of Some (JStr s) \<Rightarrow> False | _ \<Rightarrow> True))"

definition slotTaken :: http_response where
  "slotTaken = \<lparr>http_status = 409, http_body = ErrorBody ''This time slot is no longer available''\<rparr>"

text \<open>The handler's outer \<open>catch\<close>.\<close>

definition processingFailed :: "string \<Rightarrow> http_response" where
  "processingFailed msg =
     \<lparr>http_status = 500, http_body = ErrorBody (''Failed to process booking: '' @ msg)\<rparr>"

record loop_state =
  bookingResult :: "booking response option"
  lastError :: "js_error option"

datatype outcome = Returned http_response | Broke | Continued

text \<open>The \<open>catch\<close> inside the retry loop.\<close>

definition catchAttempt ::
  "nat \<Rightarrow> js_error \<Rightarrow> loop_state \<Rightarrow> event list \<Rightarrow> outcome \<times> loop_state \<times> event list" where
  "catchAttempt attempt e st tr =
     (Continued, st\<lparr>lastError := Some e\<rparr>,
      if attempt < maxRetries then tr @ [Delay 1000] else tr)"

text \<open>
  One pass through the body of the retry loop. The formatting of the end time and of
  the request parameters has no effect beyond the request sent and is left out.
\<close>

definition attemptBooking ::
  "config \<Rightarrow> upstream \<Rightarrow> booking_request \<Rightarrow> json \<Rightarrow> string \<Rightarrow> string \<Rightarrow> nat
     \<Rightarrow> loop_state \<Rightarrow> event list \<Rightarrow> outcome \<times> loop_state \<times> event list" where
  "attemptBooking cfg up req finalUnitId bookingDate bookingTime attempt st tr =
     (case callGetReservedTimeIntervals up finalUnitId tr of
        (Rejected msg, tr1) \<Rightarrow> catchAttempt attempt (JsError (Some msg)) st tr1
      | (Resolved reservedResult, tr1) \<Rightarrow>
          if \<not> isTimeSlotFree bookingTime (dayIntervals reservedResult bookingDate) (durationOf cfg)
          then (Returned slotTaken, st, tr1)
          else if notesThrow (req_client_notes req)
          then catchAttempt attempt (JsError (Some ''client_notes.trim is not a function'')) st tr1
          else
            (case callBook up tr1 of
               (Rejected msg, tr2) \<Rightarrow> catchAttempt attempt (JsError (Some msg)) st tr2
             | (Resolved result, tr2) \<Rightarrow>
                 (case resp_error result of
                    Some e \<Rightarrow>
                      if notAvailable e
                      then (Returned slotTaken,
                            st\<lparr>bookingResult := Some result, lastError := Some e\<rparr>, tr2)
                      else (Continued,
                            st\<lparr>bookingResult := Some result, lastError := Some e\<rparr>,
                            if attempt < maxRetries then tr2 @ [Delay 1000] else tr2)
                  | None \<Rightarrow> (Broke, st\<lparr>bookingResult := Some result\<rparr>, tr2))))"

text \<open>
  \<open>for (let attempt = 1; attempt <= maxRetries; attempt++)\<close>, entered at \<open>attempt\<close>.
  The first component of the result is the response of an early \<open>return\<close>, if any.
\<close>

function bookingLoop ::
  "config \<Rightarrow> upstream \<Rightarrow> booking_request \<Rightarrow> json \<Rightarrow> string \<Rightarrow> string \<Rightarrow> nat
     \<Rightarrow> loop_state \<Rightarrow> event list \<Rightarrow> http_response option \<times> loop_state \<times> event list" where
  "bookingLoop cfg up req finalUnitId bookingDate bookingTime attempt st tr =
     (if attempt \<le> maxRetries
      then (case attemptBooking cfg up req finalUnitId bookingDate bookingTime attempt st tr of
              (Returned r, st', tr') \<Rightarrow> (Some r, st', tr')
            | (Broke, st', tr') \<Rightarrow> (None, st', tr')
            | (Continued, st', tr') \<Rightarrow>
                bookingLoop cfg up req finalUnitId bookingDate bookingTime (attempt + 1) st' tr')
      else (None, st, tr))"
  by pat_completeness auto
termination
  by (relation "measure (\<lambda>(cfg, up, req, u, d, t, attempt, st, tr). maxRetries + 1 - attempt)") auto

text \<open>\<open>result.bookingHash || result.booking_id || result.id\<close>\<close>

definition bookingIdOf :: "booking \<Rightarrow> json option" where
  "bookingIdOf r =
     (if truthy (bookingHash r) then bookingHash r
      else if truthy (booking_id r) then booking_id r else bk_id r)"

text \<open>
  What follows the retry loop: the failure after the last attempt, or the verification
  call (for logging only) and the confirmation.
\<close>

definition afterLoop ::
  "upstream \<Rightarrow> json \<Rightarrow> string \<Rightarrow> loop_state \<Rightarrow> event list \<Rightarrow> http_response \<times> event list" where
  "afterLoop up finalUnitId startTime st tr =
     (case bookingResult st of
        None \<Rightarrow> (processingFailed ''Cannot read properties of null (reading 'result')'', tr)
      | Some result \<Rightarrow>
          (case resp_error result of
             Some e \<Rightarrow>
               (case lastError st of
                  None \<Rightarrow>
                    (processingFailed ''Cannot read properties of null (reading 'message')'', tr)
                | Some le \<Rightarrow>
                    (\<lparr>http_status = 500,
                      http_body = ErrorBody (''Failed to create booking: ''
                                               @ js_string (err_message le))\<rparr>, tr))
           | None \<Rightarrow>
               (case resp_result result of
                  None \<Rightarrow>
                    (processingFailed
                       ''Cannot read properties of undefined (reading 'bookingHash')'', tr)
                | Some b \<Rightarrow>
                    (\<lparr>http_status = 200,
                      http_body = BookingBody (bookingIdOf b)
                        (''Booking confirmed with '' @ coachNameOf (Some finalUnitId)
                           @ '' for '' @ startTime @ ''!'')
                        (coachNameOf (Some finalUnitId)) (Some finalUnitId)\<rparr>,
                     snd (callGetReservedTimeIntervals up finalUnitId tr)))))"

text \<open>\<open>clientResult.error?.message || 'Unknown error'\<close>\<close>

definition clientErrorText :: "js_error option \<Rightarrow> string" where
  "clientErrorText e =
     (case e of None \<Rightarrow> ''Unknown error''
      | Some err \<Rightarrow> (case err_message err of None \<Rightarrow> ''Unknown error''
                     | Some m \<Rightarrow> if m = [] then ''Unknown error'' else m))"

definition clientFailed :: "string \<Rightarrow> http_response" where
  "clientFailed msg =
     \<lparr>http_status = 500, http_body = ErrorBody (''Failed to create client: '' @ msg)\<rparr>"

text \<open>Steps 1 to 4 once the request has passed validation and the start time is split.\<close>

definition bookSteps ::
  "config \<Rightarrow> upstream \<Rightarrow> booking_request \<Rightarrow> json \<Rightarrow> string \<Rightarrow> string \<Rightarrow> string option
     \<Rightarrow> http_response \<times> event list" where
  "bookSteps cfg up req finalUnitId startTime bookingDate bookingTime =
     (case callGetUserToken up [] of
        (Rejected msg, tr1) \<Rightarrow> (processingFailed msg, tr1)
      | (Resolved adminTokenResult, tr1) \<Rightarrow>
          if resp_error adminTokenResult \<noteq> None
          then (\<lparr>http_status = 500,
                 http_body = ErrorBody ''Failed to get admin access token''\<rparr>, tr1)
          else
            (case callGetReservedTimeIntervals up finalUnitId tr1 of
               (Rejected msg, tr2) \<Rightarrow> (processingFailed msg, tr2)
             | (Resolved reservedResult, tr2) \<Rightarrow>
                 (case bookingTime of
                    None \<Rightarrow>
                      (processingFailed
                         ''Cannot read properties of undefined (reading 'split')'', tr2)
                  | Some time \<Rightarrow>
                      if \<not> isTimeSlotFree time (dayIntervals reservedResult bookingDate)
                             (durationOf cfg)
                      then (slotTaken, tr2)
                      else
                        (case callAddClient up tr2 of
                           (Rejected msg, tr3) \<Rightarrow> (clientFailed msg, tr3)
                         | (Resolved clientResult, tr3) \<Rightarrow>
                             if (case resp_result clientResult of None \<Rightarrow> False
                                 | Some clientId \<Rightarrow> clientId \<noteq> 0)
                                \<and> resp_error clientResult = None
                             then
                               (case bookingLoop cfg up req finalUnitId bookingDate time 1
                                       \<lparr>bookingResult = None, lastError = None\<rparr> tr3 of
                                  (Some r, st, tr4) \<Rightarrow> (r, tr4)
                                | (None, st, tr4) \<Rightarrow> afterLoop up finalUnitId startTime st tr4)
                             else (clientFailed (clientErrorText (resp_error clientResult)),
                                   tr3)))))"

text \<open>
  The handler of \<open>POST /api/book-session\<close>: the response and what the request did
  upstream. \<open>load\<close> is the outcome of reading the configuration file. A start time
  that is truthy and not a string has no \<open>split\<close> method. (Two branches cannot be
  taken and repeat their neighbours: a unit that is absent after validation, and an
  empty split.)
\<close>

definition bookSessionHandler ::
  "string + config \<Rightarrow> upstream \<Rightarrow> booking_request \<Rightarrow> http_response \<times> event list" where
  "bookSessionHandler load up req =
     (case load of
        Inl msg \<Rightarrow> (processingFailed msg, [])
      | Inr cfg \<Rightarrow>
          if missingRequired req
          then (\<lparr>http_status = 400, http_body = ErrorBody ''Missing required fields''\<rparr>, [])
          else
            (case finalUnitIdOf (req_unit_id req) of
               None \<Rightarrow>
                 (\<lparr>http_status = 400, http_body = ErrorBody ''Missing required fields''\<rparr>, [])
             | Some finalUnitId \<Rightarrow>
                 (case req_start_time req of
                    Some (JStr startTime) \<Rightarrow>
                      (case split CHR '' '' startTime of
                         [] \<Rightarrow> (processingFailed ''start_time.split is not a function'', [])
                       | bookingDate # parts \<Rightarrow>
                           bookSteps cfg up req finalUnitId startTime bookingDate
                             (case parts of [] \<Rightarrow> None | t # _ \<Rightarrow> Some t))
                  | _ \<Rightarrow> (processingFailed ''start_time.split is not a function'', []))))"

section \<open>The conversion-reporting controller\<close>

text \<open>
  The environment of one controller call: the process variables, and the readings of
  the clock (and random source) that the call takes: the Unix time in seconds, and the
  \<open>id\<close> and \<open>timestamp\<close> of the \<open>k\<close>-th record the call creates.
\<close>

record environment =
  FACEBOOK_PIXEL_ID :: "string option"
  FACEBOOK_ACCESS_TOKEN :: "string option"
  NODE_ENV :: "string option"
  unixTime :: rat
  recordId :: "nat \<Rightarrow> string"
  recordTimestamp :: "nat \<Rightarrow> string"

record conversion_request =
  cv_event_name :: string
  cv_user_data :: "(string \<rightharpoonup> json) option"
  cv_custom_data :: "(string \<rightharpoonup> json) option"
  cv_referer :: "string option"
  cv_user_agent :: "string option"
  cv_ip :: "string option"

record batch_event =
  be_event_name :: string
  be_event_time :: "rat option"
  be_user_data :: "(string \<rightharpoonup> json) option"
  be_custom_data :: "(string \<rightharpoonup> json) option"

record batch_request =
  bt_events :: "batch_event list option"
  bt_referer :: "string option"
  bt_user_agent :: "string option"
  bt_ip :: "string option"

record fb_event =
  event_name :: string
  event_time :: rat
  action_source :: string
  event_source_url :: string
  user_data :: "string \<rightharpoonup> json"
  custom_data :: "(string \<rightharpoonup> json) option"

record event_payload =
  payload_data :: "fb_event list"
  access_token :: "string option"
  test_event_code :: "string option"

text \<open>An object spread: the members of an optional object, none when it is \<open>undefined\<close>.\<close>

definition spread :: "(string \<rightharpoonup> json) option \<Rightarrow> (string \<rightharpoonup> json)" where
  "spread obj = (case obj of None \<Rightarrow> Map.empty | Some m \<Rightarrow> m)"

definition orElse :: "string option \<Rightarrow> string \<Rightarrow> string" where
  "orElse s d = (case s of None \<Rightarrow> d | Some v \<Rightarrow> if v = [] then d else v)"

definition testEventCode :: "environment \<Rightarrow> string option" where
  "testEventCode env = (if NODE_ENV env = Some ''development'' then Some ''TEST12345'' else None)"

text \<open>The payload \<open>sendConversionEvent\<close> builds (\<open>eventPayload\<close>).\<close>

definition eventPayload :: "environment \<Rightarrow> conversion_request \<Rightarrow> event_payload" where
  "eventPayload env req =
     \<lparr>payload_data =
        [\<lparr>event_name = cv_event_name req,
          event_time = unixTime env,
          action_source = ''website'',
          event_source_url =
            orElse (cv_referer req) ''https://miricledev.github.io/inner-performance-lp-1/'',
          user_data = (spread (cv_user_data req))
            (''client_ip_address'' := map_option JStr (cv_ip req),
             ''client_user_agent'' := map_option JStr (cv_user_agent req)),
          custom_data = Some ((spread (cv_custom_data req))
            (''content_name'' \<mapsto>
               (case spread (cv_custom_data req) ''content_name'' of
                  None \<Rightarrow> JStr (cv_event_name req)
                | Some v \<Rightarrow> if truthy (Some v) then v else JStr (cv_event_name req)),
             ''content_category'' \<mapsto>
               (case spread (cv_custom_data req) ''content_category'' of
                  None \<Rightarrow> JStr ''conversion''
                | Some v \<Rightarrow> if truthy (Some v) then v else JStr ''conversion'')))\<rparr>],
      access_token = FACEBOOK_ACCESS_TOKEN env,
      test_event_code = testEventCode env\<rparr>"

text \<open>The payload \<open>sendBatchEvents\<close> builds (\<open>batchPayload\<close>).\<close>

definition batchPayload :: "environment \<Rightarrow> batch_request \<Rightarrow> batch_event list \<Rightarrow> event_payload" where
  "batchPayload env req events =
     \<lparr>payload_data =
        map (\<lambda>e. \<lparr>event_name = be_event_name e,
                   event_time = (case be_event_time e of None \<Rightarrow> unixTime env
                                 | Some t \<Rightarrow> if t = 0 then unixTime env else t),
                   action_source = ''website'',
                   event_source_url = orElse (bt_referer req) ''https://yourdomain.com'',
                   user_data = (spread (be_user_data e))
                     (''client_ip_address'' := map_option JStr (bt_ip req),
                      ''client_user_agent'' := map_option JStr (bt_user_agent req)),
                   custom_data = be_custom_data e\<rparr>) events,
      access_token = FACEBOOK_ACCESS_TOKEN env,
      test_event_code = testEventCode env\<rparr>"

text \<open>
  The HTTP client: for a posted payload, the \<open>data\<close> of the response, or the error
  thrown, with its message, its \<open>code\<close> and the message and code of the error object
  in the response body, if there is one.
\<close>

record axios_error =
  ax_message :: string
  ax_code :: "string option"
  ax_fb_error :: "(string option \<times> string option) option"

type_synonym axios = "event_payload \<Rightarrow> axios_error + string"

definition configured :: "string option \<Rightarrow> bool" where
  "configured v = (case v of None \<Rightarrow> False | Some s \<Rightarrow> s \<noteq> [])"

text \<open>
  \<open>sendToFacebookAPI\<close>: the response data or the message of the error it throws,
  and the payloads that were posted.
\<close>

definition sendToFacebookAPI ::
  "environment \<Rightarrow> axios \<Rightarrow> event_payload \<Rightarrow> (string + string) \<times> event_payload list" where
  "sendToFacebookAPI env post payload =
     (if \<not> configured (FACEBOOK_PIXEL_ID env)
      then (Inl ''Facebook Pixel ID is not configured'', [])
      else if \<not> configured (FACEBOOK_ACCESS_TOKEN env)
      then (Inl ''Facebook Access Token is not configured'', [])
      else
        (case post payload of
           Inr responseData \<Rightarrow> (Inr responseData, [payload])
         | Inl err \<Rightarrow>
             ((case ax_fb_error err of
                 Some (m, c) \<Rightarrow>
                   Inl (''Facebook API Error: '' @ js_string m @ '' (Code: '' @ js_string c @ '')'')
               | None \<Rightarrow>
                   if ax_code err = Some ''ECONNABORTED''
                   then Inl ''Facebook API request timed out''
                   else if ax_code err = Some ''ENOTFOUND''
                   then Inl ''Unable to connect to Facebook API''
                   else Inl (ax_message err)),
              [payload])))"

text \<open>
  The helpers of \<open>facebookApi.js\<close> that hash user data; \<open>sha256\<close> is the digest in
  hex. Letters are lower-cased and blanks trimmed over ASCII.
\<close>

definition toLowerCase :: "string \<Rightarrow> string" where
  "toLowerCase s =
     map (\<lambda>c. case map_of (zip ''ABCDEFGHIJKLMNOPQRSTUVWXYZ'' ''abcdefghijklmnopqrstuvwxyz'') c of
                 None \<Rightarrow> c | Some l \<Rightarrow> l) s"

definition isBlank :: "char \<Rightarrow> bool" where
  "isBlank c \<longleftrightarrow> (of_char c :: nat) \<in> {9, 10, 11, 12, 13, 32}"

definition trim :: "string \<Rightarrow> string" where
  "trim s = rev (dropWhile isBlank (rev (dropWhile isBlank s)))"

definition hashEmail :: "(string \<Rightarrow> string) \<Rightarrow> string \<Rightarrow> string" where
  "hashEmail sha256 email = sha256 (trim (toLowerCase email))"

definition hashPhone :: "(string \<Rightarrow> string) \<Rightarrow> string \<Rightarrow> string" where
  "hashPhone sha256 phone = sha256 (filter (\<lambda>c. c \<in> set ''0123456789'') phone)"

text \<open>
  \<open>prepareUserData\<close>: \<open>em\<close> and \<open>ph\<close>, when present and non-empty, are replaced by
  their hashes. (Both are strings when present.)
\<close>

definition prepareUserData :: "(string \<Rightarrow> string) \<Rightarrow> (string \<rightharpoonup> json) \<Rightarrow> (string \<rightharpoonup> json)" where
  "prepareUserData sha256 userData =
     (let prepared1 =
            (case userData ''em'' of
               Some (JStr em) \<Rightarrow>
                 if em \<noteq> [] then userData(''em'' \<mapsto> JStr (hashEmail sha256 em)) else userData
             | _ \<Rightarrow> userData)
      in case prepared1 ''ph'' of
           Some (JStr ph) \<Rightarrow>
             if ph \<noteq> [] then prepared1(''ph'' \<mapsto> JStr (hashPhone sha256 ph)) else prepared1
         | _ \<Rightarrow> prepared1)"

section \<open>The record of recent events\<close>

record event_record =
  er_id :: string
  er_event_name :: string
  er_timestamp :: string
  er_status :: string
  er_response :: "string option"
  er_error :: "string option"
  er_batch :: bool

text \<open>
  The module state is the array \<open>recentEvents\<close>. \<open>history\<close> is a specification
  variable: every record in the order of its creation. No operation reads it.
\<close>

record controller_state =
  recentEvents :: "event_record list"
  history :: "event_record list"

definition initialState :: controller_state where
  "initialState = \<lparr>recentEvents = [], history = []\<rparr>"

definition unshift :: "event_record \<Rightarrow> controller_state \<Rightarrow> controller_state" where
  "unshift r st = st\<lparr>recentEvents := r # recentEvents st, history := history st @ [r]\<rparr>"

definition pop :: "controller_state \<Rightarrow> controller_state" where
  "pop st = st\<lparr>recentEvents := butlast (recentEvents st)\<rparr>"

datatype reply =
    EventSent string string
  | BatchSent nat string
  | Failed string "string option"
  | Status nat nat nat "event_record list"

text \<open>
  \<open>sendConversionEvent\<close>: the new state, the status and body of the response, and the
  payloads posted.
\<close>

definition sendConversionEvent ::
  "environment \<Rightarrow> axios \<Rightarrow> conversion_request \<Rightarrow> controller_state
     \<Rightarrow> controller_state \<times> (nat \<times> reply) \<times> event_payload list" where
  "sendConversionEvent env post req st =
     (case sendToFacebookAPI env post (eventPayload env req) of
        (Inr responseData, posted) \<Rightarrow>
          (let eventRecord = \<lparr>er_id = recordId env 0, er_event_name = cv_event_name req,
                 er_timestamp = recordTimestamp env 0, er_status = ''success'',
                 er_response = Some responseData, er_error = None, er_batch = False\<rparr>;
               st1 = unshift eventRecord st;
               st2 = (if length (recentEvents st1) > 100 then pop st1 else st1)
           in (st2, (200, EventSent (er_id eventRecord) responseData), posted))
      | (Inl msg, posted) \<Rightarrow>
          (let failedEvent = \<lparr>er_id = recordId env 0, er_event_name = cv_event_name req,
                 er_timestamp = recordTimestamp env 0, er_status = ''failed'',
                 er_response = None, er_error = Some msg, er_batch = False\<rparr>
           in (unshift failedEvent st,
               (500, Failed ''Failed to send conversion event'' (Some msg)), posted)))"

text \<open>\<open>events.forEach\<close> storing one record per event; \<open>k\<close> counts the records created.\<close>

fun storeBatch ::
  "environment \<Rightarrow> nat \<Rightarrow> batch_event list \<Rightarrow> controller_state \<Rightarrow> controller_state" where
  "storeBatch env k [] st = st"
| "storeBatch env k (e # es) st =
     storeBatch env (k + 1) es
       (unshift \<lparr>er_id = recordId env k, er_event_name = be_event_name e,
                 er_timestamp = recordTimestamp env k, er_status = ''success'',
                 er_response = None, er_error = None, er_batch = True\<rparr> st)"

definition sendBatchEvents ::
  "environment \<Rightarrow> axios \<Rightarrow> batch_request \<Rightarrow> controller_state
     \<Rightarrow> controller_state \<times> (nat \<times> reply) \<times> event_payload list" where
  "sendBatchEvents env post req st =
     (case bt_events req of
        None \<Rightarrow>
          (st, (400, Failed ''Events array is required and must not be empty'' None), [])
      | Some events \<Rightarrow>
          if events = []
          then (st, (400, Failed ''Events array is required and must not be empty'' None), [])
          else
            (case sendToFacebookAPI env post (batchPayload env req events) of
               (Inr responseData, posted) \<Rightarrow>
                 (storeBatch env 0 events st, (200, BatchSent (length events) responseData), posted)
             | (Inl msg, posted) \<Rightarrow>
                 (st, (500, Failed ''Failed to send batch events'' (Some msg)), posted)))"

text \<open>
  \<open>recentEvents.slice(0, n)\<close> for \<open>n = parseInt(limit)\<close>: \<open>None\<close> is \<open>NaN\<close> (nothing is
  taken), a negative \<open>n\<close> counts from the end.
\<close>

definition slice0 :: "'a list \<Rightarrow> int option \<Rightarrow> 'a list" where
  "slice0 xs n =
     (case n of None \<Rightarrow> []
      | Some k \<Rightarrow> if k < 0 then take (nat (int (length xs) + k)) xs else take (nat k) xs)"

definition getEventStatus :: "controller_state \<Rightarrow> int option \<Rightarrow> nat \<times> reply" where
  "getEventStatus st limit =
     (200, Status (length (recentEvents st))
             (length (filter (\<lambda>e. er_status e = ''success'') (recentEvents st)))
             (length (filter (\<lambda>e. er_status e = ''failed'') (recentEvents st)))
             (slice0 (recentEvents st) limit))"

text \<open>The two send operations, and the states they reach from the empty list.\<close>

datatype operation =
    SendEvent environment axios conversion_request
  | SendBatch environment axios batch_request

fun perform :: "controller_state \<Rightarrow> operation \<Rightarrow> controller_state" where
  "perform st (SendEvent env post req) = fst (sendConversionEvent env post req st)"
| "perform st (SendBatch env post req) = fst (sendBatchEvents env post req st)"

definition run :: "operation list \<Rightarrow> controller_state" where
  "run ops = foldl perform initialState ops"

section \<open>Invariants and sample inputs\<close>

text \<open>
  The invariant of the controller state: every record ever created has one of the two
  statuses, and \<open>recentEvents\<close> is an initial part of the records in reverse order of
  creation.
\<close>

definition wellFormed :: "controller_state \<Rightarrow> bool" where
  "wellFormed st \<longleftrightarrow>
     (\<forall>r \<in> set (history st). er_status r = ''success'' \<or> er_status r = ''failed'')
     \<and> recentEvents st = take (length (recentEvents st)) (rev (history st))"

text \<open>
  For the retry loop: a booking call is answered with a "not available" error; no
  booking call of a trace was answered so; a trace ends with the first booking call
  that was.
\<close>

definition answersNotAvailable :: "booking api_result \<Rightarrow> bool" where
  "answersNotAvailable res =
     (case res of Rejected msg \<Rightarrow> False
      | Resolved r \<Rightarrow> (case resp_error r of None \<Rightarrow> False | Some e \<Rightarrow> notAvailable e))"

definition noneNotAvailable :: "upstream \<Rightarrow> event list \<Rightarrow> bool" where
  "noneNotAvailable up tr \<longleftrightarrow> (\<forall>j < calls Book tr. \<not> answersNotAvailable (book up j))"

definition stoppedByConflict :: "upstream \<Rightarrow> event list \<Rightarrow> bool" where
  "stoppedByConflict up tr \<longleftrightarrow>
     (\<exists>pre. tr = pre @ [Call Book] \<and> answersNotAvailable (book up (calls Book pre))
            \<and> noneNotAvailable up pre)"

text \<open>A configuration and a booking request.\<close>

definition sampleConfig :: config where
  "sampleConfig = \<lparr>cfg_workingHours = \<lparr>wh_start = 16, wh_end = 18,
       wh_days = [''Monday'', ''Tuesday'', ''Wednesday'', ''Thursday'', ''Friday'']\<rparr>,
     cfg_serviceDuration = Some 55\<rparr>"

definition sampleBooking :: booking_request where
  "sampleBooking = \<lparr>req_start_time = Some (JStr ''2024-12-02 16:00''),
     req_service_id = Some (JNum 13), req_unit_id = Some (JNum 4),
     req_client_name = Some (JStr ''John Doe''),
     req_client_email = Some (JStr ''john@example.com''),
     req_client_phone = Some (JStr ''123-456-7890''), req_client_notes = None\<rparr>"

text \<open>
  An upstream that grants tokens, reports no reservations, creates the client, and
  answers the first \<open>k\<close> booking calls with the error \<open>e\<close> and the next with a booking.
\<close>

definition failingFirst :: "nat \<Rightarrow> string \<Rightarrow> upstream" where
  "failingFirst k e =
     \<lparr>getToken = (\<lambda>n. Resolved (Response None (Some ''public-token''))),
      getUserToken = (\<lambda>n. Resolved (Response None (Some ''admin-token''))),
      getStartTimeMatrix = (\<lambda>u n. Resolved (Response None (Some []))),
      getReservedTimeIntervals = (\<lambda>u n. Resolved (Response None (Some Map.empty))),
      addClient = (\<lambda>n. Resolved (Response None (Some 77))),
      book = (\<lambda>n. if n < k then Resolved (Response (Some (JsError (Some e))) None)
                    else Resolved (Response None
                           (Some \<lparr>bookingHash = Some (JStr ''f3a9''), booking_id = None,
                                  bk_id = Some (JNum 501)\<rparr>)))\<rparr>"

text \<open>
  An attempt of the retry loop fails without ending the loop when the booking call is
  rejected (the request fails or its body cannot be parsed) or is answered with an error
  whose message does not contain "not available".
\<close>

definition transient :: "booking api_result \<Rightarrow> bool" where
  "transient res =
     (case res of Rejected msg \<Rightarrow> True
      | Resolved r \<Rightarrow> (case resp_error r of None \<Rightarrow> False | Some e \<Rightarrow> \<not> notAvailable e))"

text \<open>Whether the booking call came back with a parsed response.\<close>

definition answered :: "booking api_result \<Rightarrow> bool" where
  "answered res = (case res of Rejected msg \<Rightarrow> False | Resolved r \<Rightarrow> True)"

text \<open>
  What such an attempt leaves in the two variables of the loop: a rejected call leaves
  \<open>bookingResult\<close> as it was, because the assignment is not reached, and the \<open>catch\<close>
  stores the exception; an answered call stores the response and its error.
\<close>

definition afterFailure :: "booking api_result \<Rightarrow> loop_state \<Rightarrow> loop_state" where
  "afterFailure res st =
     (case res of
        Rejected msg \<Rightarrow> st\<lparr>lastError := Some (JsError (Some msg))\<rparr>
      | Resolved r \<Rightarrow> st\<lparr>bookingResult := Some r, lastError := resp_error r\<rparr>)"

text \<open>The message of a failed attempt: of the exception, or of the error answered.\<close>

definition failureText :: "booking api_result \<Rightarrow> string" where
  "failureText res =
     (case res of
        Rejected msg \<Rightarrow> msg
      | Resolved r \<Rightarrow> (case resp_error r of None \<Rightarrow> [] | Some e \<Rightarrow> js_string (err_message e)))"

text \<open>
  An upstream that grants tokens and creates the client, answers the \<open>n\<close>-th
  reserved-intervals call with the intervals \<open>reserved n\<close> and the \<open>n\<close>-th booking call
  with \<open>answers n\<close>.
\<close>

definition bookingUpstream ::
  "(nat \<Rightarrow> (string \<rightharpoonup> interval_group list)) \<Rightarrow> (nat \<Rightarrow> booking api_result) \<Rightarrow> upstream" where
  "bookingUpstream reserved answers =
     \<lparr>getToken = (\<lambda>n. Resolved (Response None (Some ''public-token''))),
      getUserToken = (\<lambda>n. Resolved (Response None (Some ''admin-token''))),
      getStartTimeMatrix = (\<lambda>u n. Resolved (Response None (Some []))),
      getReservedTimeIntervals = (\<lambda>u n. Resolved (Response None (Some (reserved n)))),
      addClient = (\<lambda>n. Resolved (Response None (Some 77))),
      book = answers\<rparr>"

text \<open>
  Reserved intervals of 2 December 2024: a session from 17:00, which leaves the slot at
  16:00 free, and a session from 16:00, which takes it.
\<close>

definition laterSession :: "string \<rightharpoonup> interval_group list" where
  "laterSession = [''2024-12-02'' \<mapsto>
     [\<lparr>reserved_time = Some [\<lparr>iv_from = ''17:00'', iv_to = ''17:55''\<rparr>],
       not_worked_time = None\<rparr>]]"

definition sameSession :: "string \<rightharpoonup> interval_group list" where
  "sameSession = [''2024-12-02'' \<mapsto>
     [\<lparr>reserved_time = Some [\<lparr>iv_from = ''16:00'', iv_to = ''16:55''\<rparr>],
       not_worked_time = None\<rparr>]]"




text \<open>Neither the date nor the time of the slot holds a blank.\<close>

definition oneBlank :: "slot \<Rightarrow> bool" where
  "oneBlank s \<longleftrightarrow> length (filter (\<lambda>c. c = CHR '' '') (start_time s)) = 1"


text \<open>Comparison by code units, as a comparator.\<close>

fun codeUnitCompare :: "string \<Rightarrow> string \<Rightarrow> int" where
  "codeUnitCompare [] [] = 0"
| "codeUnitCompare [] (y # ys) = - 1"
| "codeUnitCompare (x # xs) [] = 1"
| "codeUnitCompare (x # xs) (y # ys) =
     (if (of_char x :: nat) < of_char y then - 1
      else if (of_char y :: nat) < of_char x then 1
      else codeUnitCompare xs ys)"

text \<open>
  An upstream for the availability endpoint, given the answers of the time-matrix and
  reserved-intervals calls per unit.
\<close>

definition scheduleUpstream ::
  "(json \<Rightarrow> (string \<times> string list) list api_result)
     \<Rightarrow> (json \<Rightarrow> (string \<rightharpoonup> interval_group list) api_result) \<Rightarrow> upstream" where
  "scheduleUpstream matrix reserved =
     \<lparr>getToken = (\<lambda>n. Resolved (Response None (Some ''public-token''))),
      getUserToken = (\<lambda>n. Resolved (Response None (Some ''admin-token''))),
      getStartTimeMatrix = (\<lambda>u n. matrix u),
      getReservedTimeIntervals = (\<lambda>u n. reserved u),
      addClient = (\<lambda>n. Rejected ''unused''),
      book = (\<lambda>n. Rejected ''unused'')\<rparr>"

text \<open>Both units offer 2024-12-02 17:00; the reserved-intervals calls report nothing.\<close>

definition twoCoaches :: upstream where
  "twoCoaches = scheduleUpstream
     (\<lambda>u. Resolved (Response None (Some
        (if u = JNum 4 then [(''2024-12-03'', [''16:00'']), (''2024-12-02'', [''17:00''])]
         else [(''2024-12-02'', [''17:00'', ''16:00''])]))))
     (\<lambda>u. Resolved (Response None (Some Map.empty)))"

text \<open>
  Unit 4 offers 16:00 on 2024-12-02 and its reserved-intervals call is answered with a
  JSON-RPC error; unit 10 offers nothing.
\<close>

definition reservedLookupFails :: upstream where
  "reservedLookupFails = scheduleUpstream
     (\<lambda>u. Resolved (Response None (Some
        (if u = JNum 4 then [(''2024-12-02'', [''16:00''])] else []))))
     (\<lambda>u. if u = JNum 4 then Resolved (Response (Some (JsError (Some ''Access denied''))) None)
          else Resolved (Response None (Some Map.empty)))"

text \<open>An environment, a request and two behaviours of the HTTP client.\<close>

definition sampleEnv :: environment where
  "sampleEnv = \<lparr>FACEBOOK_PIXEL_ID = Some ''1234567890'', FACEBOOK_ACCESS_TOKEN = Some ''token'',
     NODE_ENV = Some ''production'', unixTime = 1733155200,
     recordId = (\<lambda>k. ''1733155200000''), recordTimestamp = (\<lambda>k. ''2024-12-02T16:00:00.000Z'')\<rparr>"

definition sampleLead :: conversion_request where
  "sampleLead = \<lparr>cv_event_name = ''Lead'',
     cv_user_data = Some [''em'' \<mapsto> JStr ''Jane.Doe@Example.com'', ''ph'' \<mapsto> JStr ''+44 20 7946 0958''],
     cv_custom_data = None, cv_referer = None, cv_user_agent = Some ''Mozilla/5.0'',
     cv_ip = Some ''203.0.113.7''\<rparr>"

definition postTimesOut :: axios where
  "postTimesOut = (\<lambda>payload. Inl \<lparr>ax_message = ''timeout of 10000ms exceeded'',
     ax_code = Some ''ECONNABORTED'', ax_fb_error = None\<rparr>)"

definition postAccepted :: axios where
  "postAccepted = (\<lambda>payload. Inr ''{events_received: 1}'')"

section \<open>Properties of the slot filter\<close>

text \<open>The clock times of the sample inputs.\<close>

lemmas number_defs = Number_def strip_def isStrWhiteSpace_def nonDecimal_def strDecimal_def
  unsignedDecimal_def digitsValue_def isExponentMark_def scale_def Let_def

lemma sample_numbers:
  "Number ''00'' = Num 0" "Number ''05'' = Num 5" "Number ''15'' = Num 15"
  "Number ''16'' = Num 16" "Number ''17'' = Num 17" "Number ''30'' = Num 30"
  "Number ''55'' = Num 55"
  by (simp_all add: number_defs)

lemma sample_minutes:
  "timeToMinutes ''15:05'' = Num 905"
  "timeToMinutes ''16:00'' = Num 960"
  "timeToMinutes ''16:55'' = Num 1015"
  "timeToMinutes ''17:00'' = Num 1020"
  "timeToMinutes ''17:30'' = Num 1050"
  by (simp_all add: timeToMinutes_def sample_numbers)

text \<open>Blanks and a sign around the digits are read as \<open>Number\<close> reads them.\<close>

lemma padded_numbers:
  "Number '' 16'' = Num 16" "Number ''+16'' = Num 16" "Number ''-16'' = Num (- 16)"
  "Number ''1e1'' = Num 10" "Number ''0x10'' = Num 16" "Number ''1.5'' = Num (3 / 2)"
  "Number ''1:'' = NaN" "Number [] = Num 0"
  by (simp_all add: number_defs signedInteger_def)

lemma padded_minutes:
  "timeToMinutes '' 16:00'' = Num 960" "timeToMinutes ''+16:00'' = Num 960"
  by (simp_all add: timeToMinutes_def sample_numbers padded_numbers)


lemma scanIntervals_iff:
  "scanIntervals s e xs \<longleftrightarrow>
     \<not> (\<exists>R \<in> set xs. js_lt s (timeToMinutes (iv_to R)) \<and> js_lt (timeToMinutes (iv_from R)) e)"
  by (induction xs) (auto simp: Let_def)

lemma scanField_pair_iff:
  "scanField s e (reserved_time g) \<and> scanField s e (not_worked_time g) \<longleftrightarrow>
     \<not> (\<exists>R \<in> set (entries g).
            js_lt s (timeToMinutes (iv_to R)) \<and> js_lt (timeToMinutes (iv_from R)) e)"
  by (cases "reserved_time g"; cases "not_worked_time g")
     (auto simp: scanField_def entries_def scanIntervals_iff)

lemma scanGroups_iff:
  "scanGroups s e gs \<longleftrightarrow>
     \<not> (\<exists>g \<in> set gs. \<exists>R \<in> set (entries g).
            js_lt s (timeToMinutes (iv_to R)) \<and> js_lt (timeToMinutes (iv_from R)) e)"
proof (induction gs)
  case Nil
  show ?case by simp
next
  case (Cons g gs)
  have "scanGroups s e (g # gs) \<longleftrightarrow>
        (scanField s e (reserved_time g) \<and> scanField s e (not_worked_time g)) \<and> scanGroups s e gs"
    by simp
  then show ?case
    unfolding scanField_pair_iff Cons.IH by simp
qed

text \<open>
  Claim C1. \<open>isTimeSlotFree\<close> returns false exactly when some reserved or not-worked
  entry \<open>R\<close> of the date overlaps the slot \<open>S\<close> strictly:
  \<open>S.start < R.end && R.start < S.end\<close>, where \<open>S.end\<close> is \<open>S.start\<close> plus the
  service duration. In particular a slot is free when every entry either starts where
  the slot ends or ends where the slot starts.
\<close>

theorem isTimeSlotFree_overlap:
  "(isTimeSlotFree S rs d = False \<longleftrightarrow>
      (\<exists>g \<in> set rs. \<exists>R \<in> set (entries g).
          js_lt (timeToMinutes S) (timeToMinutes (iv_to R))
          \<and> js_lt (timeToMinutes (iv_from R)) (js_add (timeToMinutes S) (Num d))))
   \<and> ((\<forall>g \<in> set rs. \<forall>R \<in> set (entries g).
          js_add (timeToMinutes S) (Num d) = timeToMinutes (iv_from R)
          \<or> timeToMinutes S = timeToMinutes (iv_to R))
        \<longrightarrow> isTimeSlotFree S rs d)"
proof -
  have lt_irrefl: "\<not> js_lt a a" for a
    by (cases a) simp_all
  have iff: "isTimeSlotFree S rs d \<longleftrightarrow>
      \<not> (\<exists>g \<in> set rs. \<exists>R \<in> set (entries g).
          js_lt (timeToMinutes S) (timeToMinutes (iv_to R))
          \<and> js_lt (timeToMinutes (iv_from R)) (js_add (timeToMinutes S) (Num d)))"
    by (simp add: isTimeSlotFree_def Let_def scanGroups_iff)
  have abut: "isTimeSlotFree S rs d"
    if all: "\<forall>g \<in> set rs. \<forall>R \<in> set (entries g).
          js_add (timeToMinutes S) (Num d) = timeToMinutes (iv_from R)
          \<or> timeToMinutes S = timeToMinutes (iv_to R)"
    unfolding iff
  proof clarify
    fix g R
    assume g: "g \<in> set rs" and R: "R \<in> set (entries g)"
      and a: "js_lt (timeToMinutes S) (timeToMinutes (iv_to R))"
      and b: "js_lt (timeToMinutes (iv_from R)) (js_add (timeToMinutes S) (Num d))"
    from all g R have "js_add (timeToMinutes S) (Num d) = timeToMinutes (iv_from R)
          \<or> timeToMinutes S = timeToMinutes (iv_to R)"
      by blast
    then show False
    proof
      assume "js_add (timeToMinutes S) (Num d) = timeToMinutes (iv_from R)"
      with b show False by (simp add: lt_irrefl)
    next
      assume "timeToMinutes S = timeToMinutes (iv_to R)"
      with a show False by (simp add: lt_irrefl)
    qed
  qed
  from iff abut show ?thesis by blast
qed


text \<open>
  The theorem at the reserved entry 16:00 to 16:55 with duration 55: the slot 16:00
  overlaps it, the slot 15:05 ends where it starts, the slot 16:55 starts where it ends.
\<close>

theorem isTimeSlotFree_overlap_witness:
  "isTimeSlotFree ''16:00''
     [\<lparr>reserved_time = Some [\<lparr>iv_from = ''16:00'', iv_to = ''16:55''\<rparr>], not_worked_time = None\<rparr>] 55 = False
   \<and> isTimeSlotFree ''15:05''
     [\<lparr>reserved_time = Some [\<lparr>iv_from = ''16:00'', iv_to = ''16:55''\<rparr>], not_worked_time = None\<rparr>] 55
   \<and> isTimeSlotFree ''16:55''
     [\<lparr>reserved_time = None, not_worked_time = Some [\<lparr>iv_from = ''16:00'', iv_to = ''16:55''\<rparr>]\<rparr>] 55"
  using isTimeSlotFree_overlap [of "''16:00''"
          "[\<lparr>reserved_time = Some [\<lparr>iv_from = ''16:00'', iv_to = ''16:55''\<rparr>], not_worked_time = None\<rparr>]" 55]
        isTimeSlotFree_overlap [of "''15:05''"
          "[\<lparr>reserved_time = Some [\<lparr>iv_from = ''16:00'', iv_to = ''16:55''\<rparr>], not_worked_time = None\<rparr>]" 55]
        isTimeSlotFree_overlap [of "''16:55''"
          "[\<lparr>reserved_time = None, not_worked_time = Some [\<lparr>iv_from = ''16:00'', iv_to = ''16:55''\<rparr>]\<rparr>]" 55]
  by (simp add: entries_def sample_minutes)


text \<open>
  Claim C2. With working hours 16 to 18 and duration 55 the filter is to accept the
  slot 16:00 and reject the slot 17:30, which ends at 18:25. The code compares only
  the start of a slot with the window: on a working day without reserved entries it
  returns both slots.
\<close>

theorem filterAvailableSlots_keeps_1730:
  "filterAvailableSlots (\<lambda>date. ''Monday'')
     [(''2024-12-02'', [''16:00'', ''17:30''])] Map.empty
     \<lparr>wh_start = 16, wh_end = 18,
       wh_days = [''Monday'', ''Tuesday'', ''Wednesday'', ''Thursday'', ''Friday'']\<rparr> 55
   = [\<lparr>start_time = ''2024-12-02 16:00'', available = True, unit_id = None, coach_name = None\<rparr>,
      \<lparr>start_time = ''2024-12-02 17:30'', available = True, unit_id = None, coach_name = None\<rparr>]"
  by (simp add: filterAvailableSlots_def slotsOfDay_def inWorkingHours_def isTimeSlotFree_def
        sample_minutes sample_numbers js_ge_def)


section \<open>Properties of the record of recent events\<close>

lemma sendToFacebookAPI_timeout:
  "fst (sendToFacebookAPI sampleEnv postTimesOut p) = Inl ''Facebook API request timed out''"
  by (simp add: sendToFacebookAPI_def sampleEnv_def postTimesOut_def configured_def)

lemma failed_send_grows:
  "length (recentEvents (fst (sendConversionEvent sampleEnv postTimesOut req st)))
     = Suc (length (recentEvents st))"
  using sendToFacebookAPI_timeout [of "eventPayload sampleEnv req"]
  by (cases "sendToFacebookAPI sampleEnv postTimesOut (eventPayload sampleEnv req)")
     (simp add: sendConversionEvent_def unshift_def Let_def)

lemma failed_sends_grow:
  "length (recentEvents (foldl perform st (replicate n (SendEvent sampleEnv postTimesOut req))))
     = length (recentEvents st) + n"
  by (induction n arbitrary: st) (simp_all add: failed_send_grows)

text \<open>The success path of \<open>sendConversionEvent\<close> keeps a list of at most 100 entries so.\<close>

lemma successful_send_keeps_cap:
  assumes "length (recentEvents st) \<le> 100"
    and "fst (sendToFacebookAPI env post (eventPayload env req)) = Inr responseData"
  shows "length (recentEvents (fst (sendConversionEvent env post req st))) \<le> 100"
  using assms
  by (cases "sendToFacebookAPI env post (eventPayload env req)")
     (auto simp: sendConversionEvent_def Let_def unshift_def pop_def)

text \<open>
  Claim C3. The list of event records is to hold at most 100 entries after any sequence
  of send operations. Only the success path of \<open>sendConversionEvent\<close> removes an
  entry; the failure path and the batch path add without a check. Starting from the
  empty list, 101 single sends that time out leave 101 records.
\<close>

theorem recentEvents_exceeds_cap:
  "length (recentEvents (run (replicate 101 (SendEvent sampleEnv postTimesOut sampleLead)))) = 101"
  by (simp add: run_def failed_sends_grow initialState_def)

lemma wellFormed_initial: "wellFormed initialState"
  by (simp add: wellFormed_def initialState_def)

lemma wellFormed_unshift:
  "wellFormed st \<Longrightarrow> er_status r = ''success'' \<or> er_status r = ''failed'' \<Longrightarrow> wellFormed (unshift r st)"
  by (auto simp: wellFormed_def unshift_def)

lemma take_min_length: "take (min (length xs) n) xs = take n xs"
  by (simp add: min_def)

lemma take_min_length_rev: "take (min (length xs) n) (rev xs) = take n (rev xs)"
  by (simp add: min_def)

lemma wellFormed_pop: "wellFormed st \<Longrightarrow> wellFormed (pop st)"
proof -
  assume wf: "wellFormed st"
  let ?re = "recentEvents st"
  have "butlast ?re = take (length ?re - 1) ?re" by (rule butlast_conv_take)
  also have "\<dots> = take (length ?re - 1) (take (length ?re) (rev (history st)))"
    using wf by (simp add: wellFormed_def)
  also have "\<dots> = take (length ?re - 1) (rev (history st))"
    by (simp add: min_def)
  finally show ?thesis using wf by (simp add: wellFormed_def pop_def take_min_length_rev)
qed

lemma wellFormed_storeBatch: "wellFormed st \<Longrightarrow> wellFormed (storeBatch env k es st)"
  by (induction es arbitrary: st k) (simp_all add: wellFormed_unshift)

lemma wellFormed_sendConversionEvent:
  "wellFormed st \<Longrightarrow> wellFormed (fst (sendConversionEvent env post req st))"
  by (cases "sendToFacebookAPI env post (eventPayload env req)")
     (auto simp: sendConversionEvent_def Let_def wellFormed_unshift wellFormed_pop split: sum.splits)

lemma wellFormed_sendBatchEvents:
  "wellFormed st \<Longrightarrow> wellFormed (fst (sendBatchEvents env post req st))"
  by (cases "sendToFacebookAPI env post (batchPayload env req (the (bt_events req)))")
     (auto simp: sendBatchEvents_def wellFormed_storeBatch split: option.splits sum.splits)

lemma wellFormed_perform: "wellFormed st \<Longrightarrow> wellFormed (perform st op)"
  by (cases op) (simp_all add: wellFormed_sendConversionEvent wellFormed_sendBatchEvents)

lemma wellFormed_foldl: "wellFormed st \<Longrightarrow> wellFormed (foldl perform st ops)"
  by (induction ops arbitrary: st) (simp_all add: wellFormed_perform)

lemma wellFormed_run: "wellFormed (run ops)"
  by (simp add: run_def wellFormed_foldl wellFormed_initial)

lemma count_two_statuses:
  "\<forall>r \<in> set xs. er_status r = ''success'' \<or> er_status r = ''failed'' \<Longrightarrow>
   length xs = length (filter (\<lambda>e. er_status e = ''success'') xs)
             + length (filter (\<lambda>e. er_status e = ''failed'') xs)"
  by (induction xs) auto

lemma slice0_prefix: "slice0 xs n = take (length (slice0 xs n)) xs"
  by (cases n) (simp_all add: slice0_def take_min_length)

lemma take_take_prefix:
  "ys = take (length ys) xs \<Longrightarrow> xs = take (length xs) zs \<Longrightarrow> ys = take (length ys) zs"
  by (metis length_take min.cobounded1 take_all_iff take_take)

text \<open>
  Claim C10. In every state reached by the send operations, every record ever created
  has status \<open>success\<close> or \<open>failed\<close>; the status query reports a total that is the sum
  of its successful and failed counts, and the records it returns are an initial part
  of all records in reverse order of creation: newest first.
\<close>

theorem event_status_counts:
  "(\<forall>r \<in> set (history (run ops)). er_status r = ''success'' \<or> er_status r = ''failed'')
   \<and> (\<exists>total successful failed recent.
         getEventStatus (run ops) limit = (200, Status total successful failed recent)
         \<and> total = successful + failed
         \<and> recent = take (length recent) (rev (history (run ops))))"
proof -
  have wf: "wellFormed (run ops)" by (rule wellFormed_run)
  then have all: "\<forall>r \<in> set (history (run ops)). er_status r = ''success'' \<or> er_status r = ''failed''"
    and pre: "recentEvents (run ops) = take (length (recentEvents (run ops))) (rev (history (run ops)))"
    by (simp_all add: wellFormed_def)
  have "set (recentEvents (run ops)) \<subseteq> set (history (run ops))"
    by (subst pre) (metis set_rev set_take_subset)
  with all have "\<forall>r \<in> set (recentEvents (run ops)). er_status r = ''success'' \<or> er_status r = ''failed''"
    by blast
  then have cnt: "length (recentEvents (run ops))
      = length (filter (\<lambda>e. er_status e = ''success'') (recentEvents (run ops)))
        + length (filter (\<lambda>e. er_status e = ''failed'') (recentEvents (run ops)))"
    by (rule count_two_statuses)
  have rec: "slice0 (recentEvents (run ops)) limit
      = take (length (slice0 (recentEvents (run ops)) limit)) (rev (history (run ops)))"
    using slice0_prefix pre by (rule take_take_prefix)
  show ?thesis
    using all cnt rec by (simp add: getEventStatus_def)
qed


text \<open>
  The theorem after one accepted and one failed send: two records were created, the
  query counts 2 = 1 + 1 and lists the failed (later) record first.
\<close>

theorem event_status_counts_witness:
  "history (run [SendEvent sampleEnv postAccepted sampleLead,
                 SendEvent sampleEnv postTimesOut sampleLead]) \<noteq> []
   \<and> map er_status (history (run [SendEvent sampleEnv postAccepted sampleLead,
                                    SendEvent sampleEnv postTimesOut sampleLead]))
       = [''success'', ''failed'']
   \<and> (\<exists>recent. getEventStatus (run [SendEvent sampleEnv postAccepted sampleLead,
                                     SendEvent sampleEnv postTimesOut sampleLead]) (Some 20)
                  = (200, Status 2 1 1 recent)
         \<and> map er_status recent = [''failed'', ''success''])"
  using event_status_counts [of "[SendEvent sampleEnv postAccepted sampleLead,
                                  SendEvent sampleEnv postTimesOut sampleLead]" "Some 20"]
  by (simp add: run_def initialState_def sendConversionEvent_def sendToFacebookAPI_def
        sampleEnv_def postAccepted_def postTimesOut_def configured_def unshift_def
        getEventStatus_def slice0_def Let_def)


section \<open>Properties of the posted payload\<close>

text \<open>
  Claim C5. The \<open>em\<close> and \<open>ph\<close> fields are to be normalised and SHA-256 hashed
  before the payload is sent. \<open>sendConversionEvent\<close> spreads \<open>user_data\<close> into the
  payload as it came and never calls \<open>prepareUserData\<close>: the payload posted for the
  sample request carries the address and the phone number in plain text, where
  \<open>prepareUserData\<close> would have put the digests of the normalised values.
\<close>

theorem sendConversionEvent_posts_plain_user_data:
  "snd (snd (sendConversionEvent sampleEnv postAccepted sampleLead initialState))
     = [eventPayload sampleEnv sampleLead]
   \<and> map (\<lambda>e. (user_data e ''em'', user_data e ''ph''))
         (payload_data (eventPayload sampleEnv sampleLead))
     = [(Some (JStr ''Jane.Doe@Example.com''), Some (JStr ''+44 20 7946 0958''))]
   \<and> prepareUserData sha256 [''em'' \<mapsto> JStr ''Jane.Doe@Example.com'',
                               ''ph'' \<mapsto> JStr ''+44 20 7946 0958''] ''em''
     = Some (JStr (sha256 ''jane.doe@example.com''))
   \<and> prepareUserData sha256 [''em'' \<mapsto> JStr ''Jane.Doe@Example.com'',
                               ''ph'' \<mapsto> JStr ''+44 20 7946 0958''] ''ph''
     = Some (JStr (sha256 ''442079460958''))"
  by (simp add: sendConversionEvent_def sendToFacebookAPI_def sampleEnv_def postAccepted_def
        configured_def eventPayload_def sampleLead_def spread_def Let_def
        prepareUserData_def hashEmail_def hashPhone_def toLowerCase_def trim_def isBlank_def)


section \<open>Properties of the booking endpoint\<close>

declare bookingLoop.simps [simp del]

lemma calls_Nil [simp]: "calls r [] = 0"
  by (simp add: calls_def)

lemma calls_Cons [simp]:
  "calls r (e # tr) = (if e = Call r then Suc (calls r tr) else calls r tr)"
  by (simp add: calls_def)

lemma calls_append [simp]: "calls r (tr @ es) = calls r tr + calls r es"
  by (simp add: calls_def)

lemma noneNotAvailable_other:
  "calls Book es = 0 \<Longrightarrow> noneNotAvailable up (tr @ es) = noneNotAvailable up tr"
  by (simp add: noneNotAvailable_def)

lemma noneNotAvailable_book:
  "calls Book es = Suc 0 \<Longrightarrow>
   noneNotAvailable up (tr @ es) \<longleftrightarrow>
     noneNotAvailable up tr \<and> \<not> answersNotAvailable (book up (calls Book tr))"
  by (auto simp: noneNotAvailable_def less_Suc_eq)

lemma attemptBooking_conflict:
  assumes "noneNotAvailable up tr"
    and "attemptBooking cfg up req u d t attempt st tr = (out, st', tr')"
  shows "noneNotAvailable up tr' \<or> (out = Returned slotTaken \<and> stoppedByConflict up tr')"
proof (cases "getReservedTimeIntervals up u (calls (GetReservedTimeIntervals u) tr)")
  case (Rejected msg)
  with assms show ?thesis
    by (auto simp: attemptBooking_def callGetReservedTimeIntervals_def catchAttempt_def noneNotAvailable_other)
next
  case (Resolved rr)
  show ?thesis
  proof (cases "\<not> isTimeSlotFree t (dayIntervals rr d) (durationOf cfg) \<or> notesThrow (req_client_notes req)")
    case True
    with assms Resolved show ?thesis
      by (auto simp: attemptBooking_def callGetReservedTimeIntervals_def catchAttempt_def noneNotAvailable_other
               split: if_splits)
  next
    case False
    let ?tr1 = "tr @ [Call (GetReservedTimeIntervals u)]"
    have n1: "noneNotAvailable up ?tr1" using assms(1) by (simp add: noneNotAvailable_other)
    show ?thesis
    proof (cases "book up (calls Book tr)")
      case (Rejected msg)
      with assms Resolved False n1 show ?thesis
        by (auto simp: attemptBooking_def callGetReservedTimeIntervals_def callBook_def
              catchAttempt_def noneNotAvailable_other noneNotAvailable_book answersNotAvailable_def)
    next
      case R: (Resolved r)
      show ?thesis
      proof (cases "resp_error r")
        case None
        with assms Resolved False n1 R show ?thesis
          by (auto simp: attemptBooking_def callGetReservedTimeIntervals_def callBook_def
                noneNotAvailable_other noneNotAvailable_book answersNotAvailable_def)
      next
        case (Some e)
        show ?thesis
        proof (cases "notAvailable e")
          case True
          have "stoppedByConflict up (tr @ [Call (GetReservedTimeIntervals u), Call Book])"
            unfolding stoppedByConflict_def
            using n1 R Some True
            by (intro exI [of _ ?tr1]) (simp add: answersNotAvailable_def)
          with assms Resolved False R Some True show ?thesis
            by (auto simp: attemptBooking_def callGetReservedTimeIntervals_def callBook_def)
        next
          case F: False
          with assms Resolved False n1 R Some show ?thesis
            by (auto simp: attemptBooking_def callGetReservedTimeIntervals_def callBook_def
                  noneNotAvailable_other noneNotAvailable_book answersNotAvailable_def)
        qed
      qed
    qed
  qed
qed

lemma bookingLoop_conflict:
  "noneNotAvailable up tr \<Longrightarrow>
   bookingLoop cfg up req u d t attempt st tr = (ret, st', tr') \<Longrightarrow>
   noneNotAvailable up tr' \<or> (ret = Some slotTaken \<and> stoppedByConflict up tr')"
proof (induction cfg up req u d t attempt st tr rule: bookingLoop.induct)
  case (1 cfg up req u d t attempt st tr)
  show ?case
  proof (cases "attempt \<le> maxRetries")
    case False
    with "1.prems" show ?thesis by (simp add: bookingLoop.simps)
  next
    case True
    obtain out st1 tr1 where a: "attemptBooking cfg up req u d t attempt st tr = (out, st1, tr1)"
      by (cases "attemptBooking cfg up req u d t attempt st tr") auto
    from attemptBooking_conflict [OF "1.prems"(1) a]
    have step: "noneNotAvailable up tr1 \<or> (out = Returned slotTaken \<and> stoppedByConflict up tr1)" .
    show ?thesis
    proof (cases out)
      case (Returned r)
      with True a "1.prems"(2) have "ret = Some r" "tr' = tr1"
        by (simp_all add: bookingLoop.simps)
      with step Returned show ?thesis by auto
    next
      case Broke
      with True a "1.prems"(2) have "ret = None" "tr' = tr1"
        by (simp_all add: bookingLoop.simps)
      with step Broke show ?thesis by auto
    next
      case Continued
      with step have n1: "noneNotAvailable up tr1" by auto
      from True a Continued "1.prems"(2)
      have "bookingLoop cfg up req u d t (attempt + 1) st1 tr1 = (ret, st', tr')"
        by (simp add: bookingLoop.simps)
      with "1.IH" [OF True a [symmetric] _ _ n1] Continued show ?thesis
        by auto
    qed
  qed
qed

lemma noneNotAvailable_noBook: "calls Book tr = 0 \<Longrightarrow> noneNotAvailable up tr"
  by (simp add: noneNotAvailable_def)

lemma afterLoop_conflict:
  "afterLoop up u s st tr = (resp, tr') \<Longrightarrow> noneNotAvailable up tr \<Longrightarrow> noneNotAvailable up tr'"
  by (auto simp: afterLoop_def callGetReservedTimeIntervals_def noneNotAvailable_other
           split: option.splits)

lemma bookSteps_conflict:
  assumes "bookSteps cfg up req u s d bt = (resp, tr)"
  shows "noneNotAvailable up tr \<or> (resp = slotTaken \<and> stoppedByConflict up tr)"
proof (cases "\<exists>tok rr t c cid. getUserToken up 0 = Resolved tok \<and> resp_error tok = None
          \<and> getReservedTimeIntervals up u 0 = Resolved rr \<and> bt = Some t
          \<and> isTimeSlotFree t (dayIntervals rr d) (durationOf cfg)
          \<and> addClient up 0 = Resolved c \<and> resp_result c = Some cid \<and> cid \<noteq> 0
          \<and> resp_error c = None")
  case False
  with assms have "calls Book tr = 0"
    by (auto simp: bookSteps_def callGetUserToken_def callGetReservedTimeIntervals_def
          callAddClient_def
          split: api_result.splits option.splits if_splits)
  then show ?thesis by (simp add: noneNotAvailable_noBook)
next
  case True
  then obtain t where bt: "bt = Some t"
    and eq: "bookSteps cfg up req u s d bt =
      (case bookingLoop cfg up req u d t 1 \<lparr>bookingResult = None, lastError = None\<rparr>
              [Call GetUserToken, Call (GetReservedTimeIntervals u), Call AddClient] of
         (Some r, st, tr4) \<Rightarrow> (r, tr4)
       | (None, st, tr4) \<Rightarrow> afterLoop up u s st tr4)"
    by (auto simp: bookSteps_def callGetUserToken_def callGetReservedTimeIntervals_def
          callAddClient_def)
  obtain ret st4 tr4 where loop: "bookingLoop cfg up req u d t 1
      \<lparr>bookingResult = None, lastError = None\<rparr>
      [Call GetUserToken, Call (GetReservedTimeIntervals u), Call AddClient] = (ret, st4, tr4)"
    by (metis prod_cases3)
  have "noneNotAvailable up [Call GetUserToken, Call (GetReservedTimeIntervals u), Call AddClient]"
    by (simp add: noneNotAvailable_noBook)
  from bookingLoop_conflict [OF this loop]
  have step: "noneNotAvailable up tr4 \<or> (ret = Some slotTaken \<and> stoppedByConflict up tr4)" .
  show ?thesis
  proof (cases ret)
    case None
    with step have n4: "noneNotAvailable up tr4" by auto
    from assms eq loop None have "afterLoop up u s st4 tr4 = (resp, tr)" by simp
    from afterLoop_conflict [OF this n4] show ?thesis by simp
  next
    case (Some r)
    with assms eq loop have "resp = r" "tr = tr4" by simp_all
    with step Some show ?thesis by auto
  qed
qed

lemma bookSessionHandler_conflict:
  assumes "bookSessionHandler load up req = (resp, tr)"
  shows "noneNotAvailable up tr \<or> (resp = slotTaken \<and> stoppedByConflict up tr)"
proof (cases "\<exists>cfg u s d parts. load = Inr cfg \<and> \<not> missingRequired req
          \<and> finalUnitIdOf (req_unit_id req) = Some u \<and> req_start_time req = Some (JStr s)
          \<and> split CHR '' '' s = d # parts")
  case False
  with assms have "tr = []"
    by (auto simp: bookSessionHandler_def split: sum.splits option.splits json.splits list.splits
          if_splits)
  then show ?thesis by (simp add: noneNotAvailable_noBook)
next
  case True
  then obtain cfg u s d bt where "bookSteps cfg up req u s d bt = (resp, tr)"
    using assms by (auto simp: bookSessionHandler_def)
  then show ?thesis by (rule bookSteps_conflict)
qed

text \<open>
  Claim C6. If a booking call of the retry loop is answered with an error whose message
  contains "not available", the request ends at once with the 409 conflict response:
  that call is the last thing the request does upstream, so no further booking attempt
  (and no delay) follows it.
\<close>

theorem booking_not_available_stops:
  assumes run: "bookSessionHandler load up req = (resp, tr)"
    and made: "k < calls Book tr"
    and answer: "book up k = Resolved r" "resp_error r = Some e" "notAvailable e"
  shows "http_status resp = 409 \<and> calls Book tr = Suc k \<and> last tr = Call Book"
proof -
  have na: "answersNotAvailable (book up k)"
    using answer by (simp add: answersNotAvailable_def)
  with made have "\<not> noneNotAvailable up tr"
    by (auto simp: noneNotAvailable_def)
  with bookSessionHandler_conflict [OF run]
  have resp: "resp = slotTaken" and stopped: "stoppedByConflict up tr" by auto
  from stopped obtain pre where tr: "tr = pre @ [Call Book]"
    and pre: "noneNotAvailable up pre"
    by (auto simp: stoppedByConflict_def)
  from made tr have "k < Suc (calls Book pre)" by simp
  moreover from pre na have "\<not> k < calls Book pre"
    by (auto simp: noneNotAvailable_def)
  ultimately have "k = calls Book pre" by simp
  with tr resp show ?thesis by (simp add: slotTaken_def)
qed

text \<open>
  Claim C9. A booking request that lacks one of \<open>start_time\<close>, \<open>service_id\<close>,
  \<open>unit_id\<close>, \<open>client_name\<close>, \<open>client_email\<close>, \<open>client_phone\<close> is answered
  with status 400 (the configuration file being readable), and in no case has the
  handler made an upstream call: no token, no client, no booking attempt.
\<close>

theorem booking_missing_field_rejected:
  assumes "req_start_time req = None \<or> req_service_id req = None \<or> req_unit_id req = None
           \<or> req_client_name req = None \<or> req_client_email req = None
           \<or> req_client_phone req = None"
  shows "bookSessionHandler (Inr cfg) up req
           = (\<lparr>http_status = 400, http_body = ErrorBody ''Missing required fields''\<rparr>, [])
         \<and> snd (bookSessionHandler load up req) = []"
proof -
  from assms have "missingRequired req"
    by (auto simp: missingRequired_def finalUnitIdOf_def)
  then show ?thesis
    by (cases load) (simp_all add: bookSessionHandler_def)
qed


lemma bookingLoop_continue:
  "attempt \<le> maxRetries \<Longrightarrow>
   attemptBooking cfg up req u d t attempt st tr = (Continued, st1, tr1) \<Longrightarrow>
   following = attempt + 1 \<Longrightarrow>
   bookingLoop cfg up req u d t attempt st tr = bookingLoop cfg up req u d t following st1 tr1"
  by (simp add: bookingLoop.simps)

lemma bookingLoop_break:
  "attempt \<le> maxRetries \<Longrightarrow>
   attemptBooking cfg up req u d t attempt st tr = (Broke, st1, tr1) \<Longrightarrow>
   bookingLoop cfg up req u d t attempt st tr = (None, st1, tr1)"
  by (simp add: bookingLoop.simps)

lemma bookingLoop_return:
  "attempt \<le> maxRetries \<Longrightarrow>
   attemptBooking cfg up req u d t attempt st tr = (Returned r, st1, tr1) \<Longrightarrow>
   bookingLoop cfg up req u d t attempt st tr = (Some r, st1, tr1)"
  by (simp add: bookingLoop.simps)

lemma bookingLoop_exit:
  "\<not> attempt \<le> maxRetries \<Longrightarrow> bookingLoop cfg up req u d t attempt st tr = (None, st, tr)"
  by (simp add: bookingLoop.simps)

lemma attemptBooking_failure:
  assumes "getReservedTimeIntervals up u (calls (GetReservedTimeIntervals u) tr) = Resolved rr"
    and "isTimeSlotFree t (dayIntervals rr d) (durationOf cfg)"
    and "\<not> notesThrow (req_client_notes req)"
    and "transient (book up (calls Book tr))"
  shows "attemptBooking cfg up req u d t attempt st tr =
     (Continued, afterFailure (book up (calls Book tr)) st,
      tr @ [Call (GetReservedTimeIntervals u), Call Book]
         @ (if attempt < maxRetries then [Delay 1000] else []))"
  using assms
  by (cases "book up (calls Book tr)")
     (auto simp: attemptBooking_def callGetReservedTimeIntervals_def callBook_def
        catchAttempt_def transient_def afterFailure_def split: option.splits)

lemma attemptBooking_taken:
  assumes "getReservedTimeIntervals up u (calls (GetReservedTimeIntervals u) tr) = Resolved rr"
    and "\<not> isTimeSlotFree t (dayIntervals rr d) (durationOf cfg)"
  shows "attemptBooking cfg up req u d t attempt st tr =
     (Returned slotTaken, st, tr @ [Call (GetReservedTimeIntervals u)])"
  using assms by (simp add: attemptBooking_def callGetReservedTimeIntervals_def)

lemma attemptBooking_success:
  assumes "getReservedTimeIntervals up u (calls (GetReservedTimeIntervals u) tr) = Resolved rr"
    and "isTimeSlotFree t (dayIntervals rr d) (durationOf cfg)"
    and "\<not> notesThrow (req_client_notes req)"
    and "book up (calls Book tr) = Resolved r" "resp_error r = None"
  shows "attemptBooking cfg up req u d t attempt st tr =
     (Broke, st\<lparr>bookingResult := Some r\<rparr>, tr @ [Call (GetReservedTimeIntervals u), Call Book])"
  using assms by (simp add: attemptBooking_def callGetReservedTimeIntervals_def callBook_def)

text \<open>
  The retry loop on a valid request whose token, availability checks and client
  creation succeed and whose first two booking attempts fail without ending the loop.
  Either way the request makes exactly three booking calls, each right after a fresh
  reserved-intervals call, with a delay of 1000 ms after the first and after the second
  failure only. If the third attempt succeeds the response is the confirmation
  (status 200). If it fails too and some attempt was answered, \<open>bookingResult\<close> holds a
  response with an error and the response has status 500 with the message of the last
  failure. If no attempt was answered, \<open>bookingResult\<close> is still \<open>null\<close>: the test
  after the loop is false, reading \<open>bookingResult.result\<close> throws, and the outer \<open>catch\<close>
  answers 500 with the message of that \<open>TypeError\<close>.
\<close>

theorem booking_retry_outcomes:
  assumes req: "\<not> missingRequired req" "finalUnitIdOf (req_unit_id req) = Some u"
      "req_start_time req = Some (JStr startTime)" "split CHR '' '' startTime = d # t # rest"
      "\<not> notesThrow (req_client_notes req)"
    and token: "getUserToken up 0 = Resolved tok" "resp_error tok = None"
    and free: "\<forall>n \<le> 3. \<exists>rr. getReservedTimeIntervals up u n = Resolved rr
                 \<and> isTimeSlotFree t (dayIntervals rr d) (durationOf cfg)"
    and client: "addClient up 0 = Resolved c" "resp_error c = None"
      "resp_result c = Some clientId" "clientId \<noteq> 0"
    and b1: "transient (book up 0)"
    and b2: "transient (book up 1)"
  shows "(book up 2 = Resolved r3 \<and> resp_error r3 = None \<and> resp_result r3 = Some b \<longrightarrow>
            bookSessionHandler (Inr cfg) up req =
              (\<lparr>http_status = 200,
                http_body = BookingBody (bookingIdOf b)
                  (''Booking confirmed with '' @ coachNameOf (Some u) @ '' for '' @ startTime @ ''!'')
                  (coachNameOf (Some u)) (Some u)\<rparr>,
               [Call GetUserToken, Call (GetReservedTimeIntervals u), Call AddClient,
                Call (GetReservedTimeIntervals u), Call Book, Delay 1000,
                Call (GetReservedTimeIntervals u), Call Book, Delay 1000,
                Call (GetReservedTimeIntervals u), Call Book,
                Call (GetReservedTimeIntervals u)]))
       \<and> (transient (book up 2)
            \<and> (answered (book up 0) \<or> answered (book up 1) \<or> answered (book up 2)) \<longrightarrow>
            bookSessionHandler (Inr cfg) up req =
              (\<lparr>http_status = 500,
                http_body = ErrorBody (''Failed to create booking: '' @ failureText (book up 2))\<rparr>,
               [Call GetUserToken, Call (GetReservedTimeIntervals u), Call AddClient,
                Call (GetReservedTimeIntervals u), Call Book, Delay 1000,
                Call (GetReservedTimeIntervals u), Call Book, Delay 1000,
                Call (GetReservedTimeIntervals u), Call Book]))
       \<and> (\<not> answered (book up 0) \<and> \<not> answered (book up 1) \<and> \<not> answered (book up 2) \<longrightarrow>
            bookSessionHandler (Inr cfg) up req =
              (\<lparr>http_status = 500,
                http_body = ErrorBody (''Failed to process booking: ''
                              @ ''Cannot read properties of null (reading 'result')'')\<rparr>,
               [Call GetUserToken, Call (GetReservedTimeIntervals u), Call AddClient,
                Call (GetReservedTimeIntervals u), Call Book, Delay 1000,
                Call (GetReservedTimeIntervals u), Call Book, Delay 1000,
                Call (GetReservedTimeIntervals u), Call Book]))"
proof -
  let ?G = "Call (GetReservedTimeIntervals u)"
  let ?st0 = "\<lparr>bookingResult = None, lastError = None\<rparr>"
  let ?tr3 = "[Call GetUserToken, ?G, Call AddClient]"
  let ?tr4 = "[Call GetUserToken, ?G, Call AddClient, ?G, Call Book, Delay 1000]"
  let ?tr5 = "[Call GetUserToken, ?G, Call AddClient, ?G, Call Book, Delay 1000,
               ?G, Call Book, Delay 1000]"
  let ?tr6 = "[Call GetUserToken, ?G, Call AddClient, ?G, Call Book, Delay 1000,
               ?G, Call Book, Delay 1000, ?G, Call Book]"
  let ?st1 = "afterFailure (book up 0) ?st0"
  let ?st2 = "afterFailure (book up 1) ?st1"
  let ?st3 = "afterFailure (book up 2) ?st2"
  from free obtain rr0 where rr0: "getReservedTimeIntervals up u 0 = Resolved rr0"
      "isTimeSlotFree t (dayIntervals rr0 d) (durationOf cfg)" by (metis le0)
  from free obtain rr1 where rr1: "getReservedTimeIntervals up u (Suc 0) = Resolved rr1"
      "isTimeSlotFree t (dayIntervals rr1 d) (durationOf cfg)"
    by (metis One_nat_def one_le_numeral)
  from free have "\<exists>rr. getReservedTimeIntervals up u 2 = Resolved rr
                 \<and> isTimeSlotFree t (dayIntervals rr d) (durationOf cfg)" by simp
  then obtain rr2 where rr2: "getReservedTimeIntervals up u (Suc (Suc 0)) = Resolved rr2"
      "isTimeSlotFree t (dayIntervals rr2 d) (durationOf cfg)"
    by (auto simp: numeral_2_eq_2)
  from free have "\<exists>rr. getReservedTimeIntervals up u 3 = Resolved rr
                 \<and> isTimeSlotFree t (dayIntervals rr d) (durationOf cfg)" by simp
  then obtain rr3 where rr3: "getReservedTimeIntervals up u (Suc (Suc (Suc 0))) = Resolved rr3"
      "isTimeSlotFree t (dayIntervals rr3 d) (durationOf cfg)"
    by (auto simp: numeral_3_eq_3)
  have c3: "calls (GetReservedTimeIntervals u) ?tr3 = Suc 0" "calls Book ?tr3 = 0"
    and c4: "calls (GetReservedTimeIntervals u) ?tr4 = Suc (Suc 0)" "calls Book ?tr4 = Suc 0"
    and c5: "calls (GetReservedTimeIntervals u) ?tr5 = Suc (Suc (Suc 0))"
      "calls Book ?tr5 = Suc (Suc 0)"
    by simp_all
  have b2': "transient (book up (Suc 0))" using b2 by simp
  have k2: "book up (Suc (Suc 0)) = book up 2" by (simp add: numeral_2_eq_2)
  have a1: "attemptBooking cfg up req u d t 1 ?st0 ?tr3 = (Continued, ?st1, ?tr4)"
    using attemptBooking_failure [of up u ?tr3 rr1 t d cfg req 1 ?st0] rr1 req(5) b1
    by (simp add: c3 maxRetries_def)
  have a2: "attemptBooking cfg up req u d t 2 ?st1 ?tr4 = (Continued, ?st2, ?tr5)"
    using attemptBooking_failure [of up u ?tr4 rr2 t d cfg req 2 ?st1] rr2 req(5) b2'
    by (simp add: c4 maxRetries_def)
  have "bookingLoop cfg up req u d t 1 ?st0 ?tr3 = bookingLoop cfg up req u d t 2 ?st1 ?tr4"
    by (rule bookingLoop_continue [OF _ a1]) (simp_all add: maxRetries_def)
  also have "\<dots> = bookingLoop cfg up req u d t 3 ?st2 ?tr5"
    by (rule bookingLoop_continue [OF _ a2]) (simp_all add: maxRetries_def)
  finally have l1: "bookingLoop cfg up req u d t 1 ?st0 ?tr3
      = bookingLoop cfg up req u d t 3 ?st2 ?tr5" .
  have steps: "bookSessionHandler (Inr cfg) up req =
      (case bookingLoop cfg up req u d t 3 ?st2 ?tr5 of
         (Some r, st, tr) \<Rightarrow> (r, tr)
       | (None, st, tr) \<Rightarrow> afterLoop up u startTime st tr)"
    using req token rr0 client
    by (simp add: bookSessionHandler_def bookSteps_def callGetUserToken_def
          callGetReservedTimeIntervals_def callAddClient_def l1 [unfolded One_nat_def])
  have ok: "bookSessionHandler (Inr cfg) up req =
              (\<lparr>http_status = 200,
                http_body = BookingBody (bookingIdOf b)
                  (''Booking confirmed with '' @ coachNameOf (Some u) @ '' for '' @ startTime @ ''!'')
                  (coachNameOf (Some u)) (Some u)\<rparr>, ?tr6 @ [?G])"
    if r3: "book up 2 = Resolved r3" "resp_error r3 = None" "resp_result r3 = Some b"
  proof -
    have a3: "attemptBooking cfg up req u d t 3 ?st2 ?tr5
        = (Broke, ?st2\<lparr>bookingResult := Some r3\<rparr>, ?tr6)"
      using attemptBooking_success [of up u ?tr5 rr3 t d cfg req r3 3 ?st2] rr3 req(5) r3 k2
      by (simp add: c5)
    have "bookingLoop cfg up req u d t 3 ?st2 ?tr5
        = (None, ?st2\<lparr>bookingResult := Some r3\<rparr>, ?tr6)"
      by (rule bookingLoop_break [OF _ a3]) (simp add: maxRetries_def)
    then show ?thesis
      using r3 by (simp add: steps afterLoop_def callGetReservedTimeIntervals_def)
  qed
  have exhausted: "bookSessionHandler (Inr cfg) up req = afterLoop up u startTime ?st3 ?tr6"
    if b3: "transient (book up 2)"
  proof -
    have a3: "attemptBooking cfg up req u d t 3 ?st2 ?tr5 = (Continued, ?st3, ?tr6)"
      using attemptBooking_failure [of up u ?tr5 rr3 t d cfg req 3 ?st2] rr3 req(5) b3 k2
      by (simp add: c5 maxRetries_def)
    have "bookingLoop cfg up req u d t 3 ?st2 ?tr5 = bookingLoop cfg up req u d t 4 ?st3 ?tr6"
      by (rule bookingLoop_continue [OF _ a3]) (simp_all add: maxRetries_def)
    also have "\<dots> = (None, ?st3, ?tr6)"
      by (rule bookingLoop_exit) (simp add: maxRetries_def)
    finally show ?thesis
      by (simp add: steps)
  qed
  have ko: "bookSessionHandler (Inr cfg) up req =
              (\<lparr>http_status = 500,
                http_body = ErrorBody (''Failed to create booking: '' @ failureText (book up 2))\<rparr>,
               ?tr6)"
    if b3: "transient (book up 2)"
      and some: "answered (book up 0) \<or> answered (book up 1) \<or> answered (book up 2)"
    using b1 b2 b3 some unfolding exhausted [OF b3]
    by (cases "book up 0"; cases "book up 1"; cases "book up 2")
       (auto simp: afterLoop_def afterFailure_def transient_def answered_def failureText_def
          js_string_def split: option.splits)
  have null: "bookSessionHandler (Inr cfg) up req =
              (\<lparr>http_status = 500,
                http_body = ErrorBody (''Failed to process booking: ''
                              @ ''Cannot read properties of null (reading 'result')'')\<rparr>,
               ?tr6)"
    if none: "\<not> answered (book up 0)" "\<not> answered (book up 1)" "\<not> answered (book up 2)"
  proof -
    from none have b3: "transient (book up 2)"
      by (cases "book up 2") (simp_all add: answered_def transient_def)
    show ?thesis
      using none unfolding exhausted [OF b3]
      by (cases "book up 0"; cases "book up 1"; cases "book up 2")
         (simp_all add: afterLoop_def afterFailure_def answered_def processingFailed_def)
  qed
  from ok ko null show ?thesis by simp
qed

lemma laterSession_free:
  "isTimeSlotFree ''16:00'' (dayIntervals (Response None (Some laterSession)) ''2024-12-02'') 55"
  by (simp add: laterSession_def dayIntervals_def isTimeSlotFree_def scanField_def sample_minutes)

lemma sameSession_taken:
  "\<not> isTimeSlotFree ''16:00'' (dayIntervals (Response None (Some sameSession)) ''2024-12-02'') 55"
  by (simp add: sameSession_def dayIntervals_def isTimeSlotFree_def scanField_def sample_minutes)

lemma sampleBooking_shape:
  "\<not> missingRequired sampleBooking" "finalUnitIdOf (req_unit_id sampleBooking) = Some (JNum 4)"
  "req_start_time sampleBooking = Some (JStr ''2024-12-02 16:00'')"
  "split CHR '' '' ''2024-12-02 16:00'' = ''2024-12-02'' # ''16:00'' # []"
  "\<not> notesThrow (req_client_notes sampleBooking)"
  "durationOf sampleConfig = 55"
  by (simp_all add: sampleBooking_def sampleConfig_def missingRequired_def finalUnitIdOf_def
        notesThrow_def durationOf_def)

lemma bookingUpstream_simps:
  "getUserToken (bookingUpstream reserved answers) n = Resolved (Response None (Some ''admin-token''))"
  "getReservedTimeIntervals (bookingUpstream reserved answers) u n
     = Resolved (Response None (Some (reserved n)))"
  "addClient (bookingUpstream reserved answers) n = Resolved (Response None (Some 77))"
  "book (bookingUpstream reserved answers) n = answers n"
  by (simp_all add: bookingUpstream_def)

text \<open>
  The theorem on two runs: the booking call is rejected, then answered with
  "Internal error", then succeeds; and it is answered with "Internal error" and then
  rejected twice, where the message of the last rejection is reported.
\<close>

theorem booking_retry_outcomes_example:
  "bookSessionHandler (Inr sampleConfig)
     (bookingUpstream (\<lambda>n. laterSession)
        (\<lambda>n. if n = 0 then Rejected ''Request failed: socket hang up''
             else if n = 1 then Resolved (Response (Some (JsError (Some ''Internal error''))) None)
             else Resolved (Response None
                    (Some \<lparr>bookingHash = Some (JStr ''f3a9''), booking_id = None,
                           bk_id = Some (JNum 501)\<rparr>))))
     sampleBooking
   = (\<lparr>http_status = 200,
       http_body = BookingBody (Some (JStr ''f3a9''))
         ''Booking confirmed with Mason for 2024-12-02 16:00!'' ''Mason'' (Some (JNum 4))\<rparr>,
      [Call GetUserToken, Call (GetReservedTimeIntervals (JNum 4)), Call AddClient,
       Call (GetReservedTimeIntervals (JNum 4)), Call Book, Delay 1000,
       Call (GetReservedTimeIntervals (JNum 4)), Call Book, Delay 1000,
       Call (GetReservedTimeIntervals (JNum 4)), Call Book,
       Call (GetReservedTimeIntervals (JNum 4))])
   \<and> bookSessionHandler (Inr sampleConfig)
     (bookingUpstream (\<lambda>n. laterSession)
        (\<lambda>n. if n = 0 then Resolved (Response (Some (JsError (Some ''Internal error''))) None)
             else Rejected ''Request failed: socket hang up''))
     sampleBooking
   = (\<lparr>http_status = 500,
       http_body = ErrorBody ''Failed to create booking: Request failed: socket hang up''\<rparr>,
      [Call GetUserToken, Call (GetReservedTimeIntervals (JNum 4)), Call AddClient,
       Call (GetReservedTimeIntervals (JNum 4)), Call Book, Delay 1000,
       Call (GetReservedTimeIntervals (JNum 4)), Call Book, Delay 1000,
       Call (GetReservedTimeIntervals (JNum 4)), Call Book])"
proof -
  let ?ok = "\<lambda>n::nat. if n = 0 then Rejected ''Request failed: socket hang up''
             else if n = 1 then Resolved (Response (Some (JsError (Some ''Internal error''))) None)
             else Resolved (Response None
                    (Some \<lparr>bookingHash = Some (JStr ''f3a9''), booking_id = None,
                           bk_id = Some (JNum 501)\<rparr>))"
  let ?ko = "\<lambda>n::nat. if n = 0
             then Resolved (Response (Some (JsError (Some ''Internal error''))) None)
             else Rejected ''Request failed: socket hang up'' :: booking api_result"
  have free: "\<forall>n \<le> 3. \<exists>rr. getReservedTimeIntervals (bookingUpstream (\<lambda>n. laterSession) answers)
                   (JNum 4) n = Resolved rr
                 \<and> isTimeSlotFree ''16:00'' (dayIntervals rr ''2024-12-02'') (durationOf sampleConfig)"
    for answers
    by (simp add: bookingUpstream_simps sampleBooking_shape laterSession_free)
  have t: "transient (?ok 0)" "transient (?ok 1)" "transient (?ko 0)" "transient (?ko 1)"
      "transient (?ko 2)" "answered (?ko 0)"
    by (simp_all add: transient_def answered_def notAvailable_def)
  have one: "fst (bookSessionHandler (Inr sampleConfig) (bookingUpstream (\<lambda>n. laterSession) ?ok)
          sampleBooking) = \<lparr>http_status = 200,
       http_body = BookingBody (Some (JStr ''f3a9''))
         ''Booking confirmed with Mason for 2024-12-02 16:00!'' ''Mason'' (Some (JNum 4))\<rparr>
      \<and> snd (bookSessionHandler (Inr sampleConfig) (bookingUpstream (\<lambda>n. laterSession) ?ok)
          sampleBooking) = [Call GetUserToken, Call (GetReservedTimeIntervals (JNum 4)), Call AddClient,
       Call (GetReservedTimeIntervals (JNum 4)), Call Book, Delay 1000,
       Call (GetReservedTimeIntervals (JNum 4)), Call Book, Delay 1000,
       Call (GetReservedTimeIntervals (JNum 4)), Call Book,
       Call (GetReservedTimeIntervals (JNum 4))]"
    using booking_retry_outcomes [where req = sampleBooking and u = "JNum 4"
          and startTime = "''2024-12-02 16:00''" and d = "''2024-12-02''" and t = "''16:00''"
          and rest = "[]" and up = "bookingUpstream (\<lambda>n. laterSession) ?ok" and cfg = sampleConfig
          and tok = "Response None (Some ''admin-token'')"
          and c = "Response None (Some 77)" and clientId = 77
          and ?r3.0 = "Response None (Some \<lparr>bookingHash = Some (JStr ''f3a9''), booking_id = None,
                           bk_id = Some (JNum 501)\<rparr>)"
          and b = "\<lparr>bookingHash = Some (JStr ''f3a9''), booking_id = None,
                           bk_id = Some (JNum 501)\<rparr>",
          OF sampleBooking_shape(1-5) _ _ free]
    by (simp add: bookingUpstream_simps transient_def answered_def notAvailable_def
          bookingIdOf_def coachNameOf_def)
  have two: "bookSessionHandler (Inr sampleConfig) (bookingUpstream (\<lambda>n. laterSession) ?ko)
          sampleBooking = (\<lparr>http_status = 500,
       http_body = ErrorBody ''Failed to create booking: Request failed: socket hang up''\<rparr>,
      [Call GetUserToken, Call (GetReservedTimeIntervals (JNum 4)), Call AddClient,
       Call (GetReservedTimeIntervals (JNum 4)), Call Book, Delay 1000,
       Call (GetReservedTimeIntervals (JNum 4)), Call Book, Delay 1000,
       Call (GetReservedTimeIntervals (JNum 4)), Call Book])"
    using booking_retry_outcomes [where req = sampleBooking and u = "JNum 4"
          and startTime = "''2024-12-02 16:00''" and d = "''2024-12-02''" and t = "''16:00''"
          and rest = "[]" and up = "bookingUpstream (\<lambda>n. laterSession) ?ko" and cfg = sampleConfig
          and tok = "Response None (Some ''admin-token'')"
          and c = "Response None (Some 77)" and clientId = 77,
          OF sampleBooking_shape(1-5) _ _ free]
    by (simp add: bookingUpstream_simps transient_def answered_def notAvailable_def
          failureText_def)
  from one two show ?thesis by (simp add: prod_eq_iff)
qed

text \<open>
  The availability check inside the loop decides on the intervals of its own call: when
  the second attempt finds the slot reserved, the request ends with status 409 before a
  second booking call.
\<close>

lemma booking_recheck_stops:
  "bookSessionHandler (Inr sampleConfig)
     (bookingUpstream (\<lambda>n. if n < 2 then laterSession else sameSession)
        (\<lambda>n. Rejected ''Request failed: socket hang up''))
     sampleBooking
   = (slotTaken,
      [Call GetUserToken, Call (GetReservedTimeIntervals (JNum 4)), Call AddClient,
       Call (GetReservedTimeIntervals (JNum 4)), Call Book, Delay 1000,
       Call (GetReservedTimeIntervals (JNum 4))])"
proof -
  let ?up = "bookingUpstream (\<lambda>n. if n < 2 then laterSession else sameSession)
        (\<lambda>n. Rejected ''Request failed: socket hang up'')"
  let ?G = "Call (GetReservedTimeIntervals (JNum 4))"
  let ?st0 = "\<lparr>bookingResult = None, lastError = None\<rparr>"
  let ?failed = "\<lparr>bookingResult = None,
        lastError = Some (JsError (Some ''Request failed: socket hang up''))\<rparr>"
  let ?tr3 = "[Call GetUserToken, ?G, Call AddClient]"
  let ?tr4 = "[Call GetUserToken, ?G, Call AddClient, ?G, Call Book, Delay 1000]"
  have a1: "attemptBooking sampleConfig ?up sampleBooking (JNum 4) ''2024-12-02'' ''16:00'' 1
      ?st0 ?tr3 = (Continued, ?failed, ?tr4)"
    using attemptBooking_failure [of ?up "JNum 4" ?tr3 "Response None (Some laterSession)"
        "''16:00''" "''2024-12-02''" sampleConfig sampleBooking 1 ?st0]
    by (simp add: bookingUpstream_simps sampleBooking_shape laterSession_free transient_def
          afterFailure_def maxRetries_def)
  have a2: "attemptBooking sampleConfig ?up sampleBooking (JNum 4) ''2024-12-02'' ''16:00'' 2
      ?failed ?tr4 = (Returned slotTaken, ?failed, ?tr4 @ [?G])"
    using attemptBooking_taken [of ?up "JNum 4" ?tr4 "Response None (Some sameSession)"
        "''16:00''" "''2024-12-02''" sampleConfig sampleBooking 2 ?failed]
    by (simp add: bookingUpstream_simps sampleBooking_shape sameSession_taken)
  have "bookingLoop sampleConfig ?up sampleBooking (JNum 4) ''2024-12-02'' ''16:00'' 1 ?st0 ?tr3
      = bookingLoop sampleConfig ?up sampleBooking (JNum 4) ''2024-12-02'' ''16:00'' 2 ?failed ?tr4"
    by (rule bookingLoop_continue [OF _ a1]) (simp_all add: maxRetries_def)
  also have "\<dots> = (Some slotTaken, ?failed, ?tr4 @ [?G])"
    by (rule bookingLoop_return [OF _ a2]) (simp add: maxRetries_def)
  finally have loop: "bookingLoop sampleConfig ?up sampleBooking (JNum 4) ''2024-12-02'' ''16:00''
      1 ?st0 ?tr3 = (Some slotTaken, ?failed, ?tr4 @ [?G])" .
  show ?thesis
    using laterSession_free loop
    by (simp add: bookSessionHandler_def bookSteps_def callGetUserToken_def
          callGetReservedTimeIntervals_def callAddClient_def bookingUpstream_simps
          sampleBooking_shape)
qed

text \<open>
  Claim C7. Two failed booking attempts followed by a success are to give the
  confirmation after exactly three booking calls, two delays of one second and an
  availability check before every attempt, and a request that uses up its three
  attempts is to answer 500 with the last upstream error. The code does not do the
  latter when every booking call is rejected before an answer arrives, here with
  "Request failed: socket hang up". The loop runs as described: three booking calls,
  each after a reserved-intervals call, a delay of 1000 ms after the first and the
  second, and \<open>lastError\<close> holds the error of the last attempt when the loop is left.
  But \<open>bookingResult\<close> is still \<open>null\<close>, so \<open>bookingResult && bookingResult.error\<close> is
  false, the read of \<open>bookingResult.result\<close> throws, and the outer \<open>catch\<close> answers 500
  with the message of that \<open>TypeError\<close>; the recorded upstream error is not in the
  response.
\<close>

theorem booking_rejections_hide_last_error:
  "bookSessionHandler (Inr sampleConfig)
     (bookingUpstream (\<lambda>n. laterSession) (\<lambda>n. Rejected ''Request failed: socket hang up''))
     sampleBooking
   = (\<lparr>http_status = 500,
       http_body = ErrorBody
         ''Failed to process booking: Cannot read properties of null (reading 'result')''\<rparr>,
      [Call GetUserToken, Call (GetReservedTimeIntervals (JNum 4)), Call AddClient,
       Call (GetReservedTimeIntervals (JNum 4)), Call Book, Delay 1000,
       Call (GetReservedTimeIntervals (JNum 4)), Call Book, Delay 1000,
       Call (GetReservedTimeIntervals (JNum 4)), Call Book])
   \<and> fst (snd (bookingLoop sampleConfig
        (bookingUpstream (\<lambda>n. laterSession) (\<lambda>n. Rejected ''Request failed: socket hang up''))
        sampleBooking (JNum 4) ''2024-12-02'' ''16:00'' 1
        \<lparr>bookingResult = None, lastError = None\<rparr>
        [Call GetUserToken, Call (GetReservedTimeIntervals (JNum 4)), Call AddClient]))
     = \<lparr>bookingResult = None,
        lastError = Some (JsError (Some ''Request failed: socket hang up''))\<rparr>"
proof -
  let ?up = "bookingUpstream (\<lambda>n. laterSession) (\<lambda>n. Rejected ''Request failed: socket hang up'')"
  let ?G = "Call (GetReservedTimeIntervals (JNum 4))"
  let ?st0 = "\<lparr>bookingResult = None, lastError = None\<rparr>"
  let ?failed = "\<lparr>bookingResult = None,
        lastError = Some (JsError (Some ''Request failed: socket hang up''))\<rparr>"
  let ?tr3 = "[Call GetUserToken, ?G, Call AddClient]"
  let ?tr4 = "[Call GetUserToken, ?G, Call AddClient, ?G, Call Book, Delay 1000]"
  let ?tr5 = "[Call GetUserToken, ?G, Call AddClient, ?G, Call Book, Delay 1000,
               ?G, Call Book, Delay 1000]"
  let ?tr6 = "[Call GetUserToken, ?G, Call AddClient, ?G, Call Book, Delay 1000,
               ?G, Call Book, Delay 1000, ?G, Call Book]"
  have a: "attemptBooking sampleConfig ?up sampleBooking (JNum 4) ''2024-12-02'' ''16:00'' k st tr
      = (Continued, st\<lparr>lastError := Some (JsError (Some ''Request failed: socket hang up''))\<rparr>,
         tr @ [?G, Call Book] @ (if k < maxRetries then [Delay 1000] else []))" for k st tr
    using attemptBooking_failure [of ?up "JNum 4" tr "Response None (Some laterSession)" "''16:00''"
        "''2024-12-02''" sampleConfig sampleBooking k st]
    by (simp add: bookingUpstream_simps sampleBooking_shape laterSession_free transient_def
          afterFailure_def)
  have "bookingLoop sampleConfig ?up sampleBooking (JNum 4) ''2024-12-02'' ''16:00'' 1 ?st0 ?tr3
      = bookingLoop sampleConfig ?up sampleBooking (JNum 4) ''2024-12-02'' ''16:00'' 2 ?failed ?tr4"
    by (rule bookingLoop_continue, simp add: maxRetries_def, subst a, simp add: maxRetries_def, simp)
  also have "\<dots>
      = bookingLoop sampleConfig ?up sampleBooking (JNum 4) ''2024-12-02'' ''16:00'' 3 ?failed ?tr5"
    by (rule bookingLoop_continue, simp add: maxRetries_def, subst a, simp add: maxRetries_def, simp)
  also have "\<dots>
      = bookingLoop sampleConfig ?up sampleBooking (JNum 4) ''2024-12-02'' ''16:00'' 4 ?failed ?tr6"
    by (rule bookingLoop_continue, simp add: maxRetries_def, subst a, simp add: maxRetries_def, simp)
  also have "\<dots> = (None, ?failed, ?tr6)"
    by (rule bookingLoop_exit) (simp add: maxRetries_def)
  finally have loop: "bookingLoop sampleConfig ?up sampleBooking (JNum 4) ''2024-12-02'' ''16:00''
      1 ?st0 ?tr3 = (None, ?failed, ?tr6)" .
  have "bookSessionHandler (Inr sampleConfig) ?up sampleBooking
      = (processingFailed ''Cannot read properties of null (reading 'result')'', ?tr6)"
    using laterSession_free loop
    by (simp add: bookSessionHandler_def bookSteps_def callGetUserToken_def
          callGetReservedTimeIntervals_def callAddClient_def bookingUpstream_simps
          sampleBooking_shape afterLoop_def)
  with loop show ?thesis
    by (simp add: processingFailed_def)
qed

lemma conflict_run:
  "bookSessionHandler (Inr sampleConfig) (failingFirst 1 ''Selected time is not available'')
     sampleBooking
   = (slotTaken, [Call GetUserToken, Call (GetReservedTimeIntervals (JNum 4)), Call AddClient,
                  Call (GetReservedTimeIntervals (JNum 4)), Call Book])"
proof -
  let ?up = "failingFirst 1 ''Selected time is not available''"
  let ?G = "Call (GetReservedTimeIntervals (JNum 4))"
  let ?st0 = "\<lparr>bookingResult = None, lastError = None\<rparr>"
  have a: "attemptBooking sampleConfig ?up sampleBooking (JNum 4) ''2024-12-02'' ''16:00'' 1 ?st0
             [Call GetUserToken, ?G, Call AddClient]
           = (Returned slotTaken,
              \<lparr>bookingResult = Some (Response (Some (JsError (Some ''Selected time is not available''))) None),
                lastError = Some (JsError (Some ''Selected time is not available''))\<rparr>,
              [Call GetUserToken, ?G, Call AddClient, ?G, Call Book])"
    by (simp add: attemptBooking_def callGetReservedTimeIntervals_def callBook_def
          failingFirst_def dayIntervals_def isTimeSlotFree_def sampleBooking_def notesThrow_def
          notAvailable_def)
  have "bookingLoop sampleConfig ?up sampleBooking (JNum 4) ''2024-12-02'' ''16:00'' 1 ?st0
             [Call GetUserToken, ?G, Call AddClient]
        = (Some slotTaken,
              \<lparr>bookingResult = Some (Response (Some (JsError (Some ''Selected time is not available''))) None),
                lastError = Some (JsError (Some ''Selected time is not available''))\<rparr>,
              [Call GetUserToken, ?G, Call AddClient, ?G, Call Book])"
    by (rule bookingLoop_return [OF _ a]) (simp add: maxRetries_def)
  then show ?thesis
    by (simp add: bookSessionHandler_def bookSteps_def missingRequired_def finalUnitIdOf_def
          sampleBooking_def callGetUserToken_def callGetReservedTimeIntervals_def
          callAddClient_def failingFirst_def dayIntervals_def isTimeSlotFree_def)
qed

text \<open>Claim C6 on that run: status 409 after a single booking call.\<close>

theorem booking_not_available_stops_witness:
  "http_status (fst (bookSessionHandler (Inr sampleConfig)
       (failingFirst 1 ''Selected time is not available'') sampleBooking)) = 409
   \<and> calls Book (snd (bookSessionHandler (Inr sampleConfig)
       (failingFirst 1 ''Selected time is not available'') sampleBooking)) = 1"
proof -
  have answer: "book (failingFirst 1 ''Selected time is not available'') 0
      = Resolved (Response (Some (JsError (Some ''Selected time is not available''))) None)"
    by (simp add: failingFirst_def)
  have na: "notAvailable (JsError (Some ''Selected time is not available''))"
    by (simp add: notAvailable_def)
  have "http_status slotTaken = 409
      \<and> calls Book [Call GetUserToken, Call (GetReservedTimeIntervals (JNum 4)), Call AddClient,
                     Call (GetReservedTimeIntervals (JNum 4)), Call Book] = Suc 0
      \<and> last [Call GetUserToken, Call (GetReservedTimeIntervals (JNum 4)), Call AddClient,
                Call (GetReservedTimeIntervals (JNum 4)), Call Book] = Call Book"
    by (rule booking_not_available_stops [OF conflict_run _ answer _ na]) simp_all
  then show ?thesis
    unfolding conflict_run by simp
qed

text \<open>Claim C9 on the sample request without its \<open>client_phone\<close>.\<close>

theorem booking_missing_field_rejected_witness:
  "bookSessionHandler (Inr sampleConfig) (failingFirst 0 [])
     (sampleBooking\<lparr>req_client_phone := None\<rparr>)
   = (\<lparr>http_status = 400, http_body = ErrorBody ''Missing required fields''\<rparr>, [])"
  using booking_missing_field_rejected [of "sampleBooking\<lparr>req_client_phone := None\<rparr>"
          sampleConfig "failingFirst 0 []" "Inr sampleConfig"]
  by simp



section \<open>Properties of the availability endpoint\<close>














text \<open>
  The slots the filter builds have one blank when the dates and times of the time
  matrix have none.
\<close>

lemma filterAvailableSlots_oneBlank:
  assumes clean: "\<And>date dayTimes. (date, dayTimes) \<in> set timeMatrix \<Longrightarrow>
             CHR '' '' \<notin> set date \<and> (\<forall>t \<in> set dayTimes. CHR '' '' \<notin> set t)"
    and s: "s \<in> set (filterAvailableSlots weekday timeMatrix reservedIntervals workingHours
                     serviceDuration)"
  shows "oneBlank s"
proof -
  from s obtain date dayTimes t where in_matrix: "(date, dayTimes) \<in> set timeMatrix"
    and t: "t \<in> set dayTimes" and start: "start_time s = date @ '' '' @ t"
    by (auto simp: filterAvailableSlots_def slotsOfDay_def Let_def split: if_splits)
  from clean [OF in_matrix] t have "CHR '' '' \<notin> set date" "CHR '' '' \<notin> set t"
    by auto
  then have "filter (\<lambda>c. c = CHR '' '') date = []" "filter (\<lambda>c. c = CHR '' '') t = []"
    by (auto simp: filter_empty_conv)
  with start show ?thesis
    by (simp add: oneBlank_def)
qed


lemma twoCoaches_unit4:
  "processUnit (\<lambda>date. ''Monday'') sampleConfig twoCoaches (JNum 4)
     [Call GetToken, Call GetUserToken]
   = ([\<lparr>start_time = ''2024-12-03 16:00'', available = True, unit_id = Some (JNum 4),
         coach_name = Some ''Mason''\<rparr>,
       \<lparr>start_time = ''2024-12-02 17:00'', available = True, unit_id = Some (JNum 4),
         coach_name = Some ''Mason''\<rparr>],
      [Call GetToken, Call GetUserToken, Call (GetStartTimeMatrix (JNum 4)),
       Call (GetReservedTimeIntervals (JNum 4))])"
  by (simp add: processUnit_def callGetStartTimeMatrix_def callGetReservedTimeIntervals_def
        twoCoaches_def scheduleUpstream_def sampleConfig_def durationOf_def coachNameOf_def
        filterAvailableSlots_def slotsOfDay_def inWorkingHours_def isTimeSlotFree_def
        sample_minutes sample_numbers js_ge_def Let_def)

lemma twoCoaches_unit10:
  "processUnit (\<lambda>date. ''Monday'') sampleConfig twoCoaches (JNum 10)
     [Call GetToken, Call GetUserToken, Call (GetStartTimeMatrix (JNum 4)),
      Call (GetReservedTimeIntervals (JNum 4))]
   = ([\<lparr>start_time = ''2024-12-02 17:00'', available = True, unit_id = Some (JNum 10),
         coach_name = Some ''Josh''\<rparr>,
       \<lparr>start_time = ''2024-12-02 16:00'', available = True, unit_id = Some (JNum 10),
         coach_name = Some ''Josh''\<rparr>],
      [Call GetToken, Call GetUserToken, Call (GetStartTimeMatrix (JNum 4)),
       Call (GetReservedTimeIntervals (JNum 4)), Call (GetStartTimeMatrix (JNum 10)),
       Call (GetReservedTimeIntervals (JNum 10))])"
  by (simp add: processUnit_def callGetStartTimeMatrix_def callGetReservedTimeIntervals_def
        twoCoaches_def scheduleUpstream_def sampleConfig_def durationOf_def coachNameOf_def
        filterAvailableSlots_def slotsOfDay_def inWorkingHours_def isTimeSlotFree_def
        sample_minutes sample_numbers js_ge_def Let_def)

lemma twoCoaches_response:
  "fst (availableSlotsHandler (\<lambda>date. ''Monday'') codeUnitCompare (Inr sampleConfig) twoCoaches)
   = \<lparr>http_status = 200, http_body = SlotsBody
       [\<lparr>start_time = ''2024-12-02 16:00'', available = True, unit_id = Some (JNum 10),
         coach_name = Some ''Josh''\<rparr>,
        \<lparr>start_time = ''2024-12-02 17:00'', available = True, unit_id = Some (JNum 4),
         coach_name = Some ''Mason''\<rparr>,
        \<lparr>start_time = ''2024-12-02 17:00'', available = True, unit_id = Some (JNum 10),
         coach_name = Some ''Josh''\<rparr>,
        \<lparr>start_time = ''2024-12-03 16:00'', available = True, unit_id = Some (JNum 4),
         coach_name = Some ''Mason''\<rparr>]\<rparr>"
proof -
  have tok: "getToken twoCoaches 0 = Resolved (Response None (Some ''public-token''))"
    "getUserToken twoCoaches 0 = Resolved (Response None (Some ''admin-token''))"
    by (simp_all add: twoCoaches_def scheduleUpstream_def)
  show ?thesis
    using tok
    by (simp add: availableSlotsHandler_def callGetToken_def callGetUserToken_def
          allowedUnits_def twoCoaches_unit4 twoCoaches_unit10 sortSlots_def compareSlots_def
          dateOf_def timeOf_def)
qed


text \<open>
  A unit is skipped when its time-matrix call is rejected or answered with an error, or
  its reserved-intervals call is rejected; with both tokens the response has status 200.
\<close>

lemma processUnit_skips:
  assumes "getStartTimeMatrix up unitId (calls (GetStartTimeMatrix unitId) tr) = Rejected msg
           \<or> (\<exists>r e. getStartTimeMatrix up unitId (calls (GetStartTimeMatrix unitId) tr) = Resolved r
                  \<and> resp_error r = Some e)
           \<or> getReservedTimeIntervals up unitId (calls (GetReservedTimeIntervals unitId) tr)
               = Rejected msg"
  shows "fst (processUnit weekday cfg up unitId tr) = []"
  using assms
  by (auto simp: processUnit_def callGetStartTimeMatrix_def callGetReservedTimeIntervals_def
        Let_def split: api_result.splits option.splits)

lemma availableSlotsHandler_partial:
  assumes "getToken up 0 = Resolved publicToken" "resp_error publicToken = None"
    and "getUserToken up 0 = Resolved adminToken" "resp_error adminToken = None"
  shows "http_status (fst (availableSlotsHandler weekday lc (Inr cfg) up)) = 200"
  using assms
  by (simp add: availableSlotsHandler_def callGetToken_def callGetUserToken_def
        split: prod.splits)


text \<open>
  Claim C4. A unit whose time-matrix or reserved-intervals call fails is to contribute
  no slots. For the time-matrix call the handler tests the \<open>error\<close> member and
  skips the unit; for the reserved-intervals call it does not: an error response is
  read as "no reservations", and the unit's theoretical slots are returned as available.
\<close>

theorem reserved_error_keeps_unit:
  "fst (availableSlotsHandler (\<lambda>date. ''Monday'') lc (Inr sampleConfig) reservedLookupFails)
   = \<lparr>http_status = 200, http_body = SlotsBody
       [\<lparr>start_time = ''2024-12-02 16:00'', available = True, unit_id = Some (JNum 4),
         coach_name = Some ''Mason''\<rparr>]\<rparr>"
proof -
  have tok: "getToken reservedLookupFails 0 = Resolved (Response None (Some ''public-token''))"
    "getUserToken reservedLookupFails 0 = Resolved (Response None (Some ''admin-token''))"
    by (simp_all add: reservedLookupFails_def scheduleUpstream_def)
  have u4: "processUnit (\<lambda>date. ''Monday'') sampleConfig reservedLookupFails (JNum 4) tr
      = ([\<lparr>start_time = ''2024-12-02 16:00'', available = True, unit_id = Some (JNum 4),
            coach_name = Some ''Mason''\<rparr>],
         tr @ [Call (GetStartTimeMatrix (JNum 4)), Call (GetReservedTimeIntervals (JNum 4))])" for tr
    by (simp add: processUnit_def callGetStartTimeMatrix_def callGetReservedTimeIntervals_def
        reservedLookupFails_def scheduleUpstream_def sampleConfig_def durationOf_def coachNameOf_def
        filterAvailableSlots_def slotsOfDay_def inWorkingHours_def isTimeSlotFree_def
        sample_minutes sample_numbers js_ge_def Let_def)
  have u10: "processUnit (\<lambda>date. ''Monday'') sampleConfig reservedLookupFails (JNum 10) tr
      = ([], tr @ [Call (GetStartTimeMatrix (JNum 10)), Call (GetReservedTimeIntervals (JNum 10))])" for tr
    by (simp add: processUnit_def callGetStartTimeMatrix_def callGetReservedTimeIntervals_def
        reservedLookupFails_def scheduleUpstream_def filterAvailableSlots_def Let_def)
  show ?thesis
    using tok
    by (simp add: availableSlotsHandler_def callGetToken_def callGetUserToken_def
          allowedUnits_def u4 u10 sortSlots_def)
qed


end
